theory Spec2Isabelle
  imports Complex_Main
begin

section \<open>Values, errors and the library the script runs on\<close>

text \<open>
  The script \<^verbatim>\<open>scripts/generate_test_data.py\<close> builds Python values out of dicts, lists,
  strings, ints and floats and hands them to \<^verbatim>\<open>json.dump\<close>, \<^verbatim>\<open>csv.DictWriter\<close> and
  \<^verbatim>\<open>shapefile.Writer\<close>. A dict keeps its insertion order (the CSV header and the shapefile
  fields are read off it), so it is an association list. A Python float is a \<^typ>\<open>real\<close>:
  the rounding of binary floating point is not modelled.
\<close>

datatype json =
    JStr string
  | JInt int
  | JFloat real
  | JArr "json list"
  | JObj "(string \<times> json) list"

datatype py_error = IndexError | KeyError | TypeError | ValueError | AttributeError

text \<open>
  The modules \<^verbatim>\<open>random\<close>, \<^verbatim>\<open>json\<close> and the builtins \<^verbatim>\<open>round\<close> and \<^verbatim>\<open>repr\<close> are not code of
  the script: they are parameters of the model, gathered in one record over the type
  \<^typ>\<open>'g\<close> of the states of the pseudo-random source. Each draw takes the state and
  returns the value with the next state. \<open>choice_index n\<close> is the position
  \<^verbatim>\<open>random.choice\<close> picks in a sequence of length \<open>n\<close>. The three flags say whether
  \<^verbatim>\<open>import shapefile\<close>, \<^verbatim>\<open>import numpy\<close> and \<^verbatim>\<open>import rasterio\<close> succeed; \<open>output_dir\<close> is
  \<^verbatim>\<open>str(OUTPUT_DIR)\<close>.
\<close>

record 'g pylib =
  uniform :: "real \<Rightarrow> real \<Rightarrow> 'g \<Rightarrow> real \<times> 'g"
  gauss :: "real \<Rightarrow> real \<Rightarrow> 'g \<Rightarrow> real \<times> 'g"
  randint :: "int \<Rightarrow> int \<Rightarrow> 'g \<Rightarrow> int \<times> 'g"
  choice_index :: "nat \<Rightarrow> 'g \<Rightarrow> nat \<times> 'g"
  round_nd :: "real \<Rightarrow> nat \<Rightarrow> real"
  repr_float :: "real \<Rightarrow> string"
  json_dumps :: "json \<Rightarrow> nat \<Rightarrow> string"
  has_shapefile :: bool
  has_numpy :: bool
  has_rasterio :: bool
  output_dir :: string

text \<open>
  The documented contracts of the draws, used as hypotheses where a claim needs them:
  \<^verbatim>\<open>uniform(a, b)\<close> returns \<open>N\<close> with \<open>a \<le> N \<le> b\<close> for \<open>a \<le> b\<close>, and \<^verbatim>\<open>choice\<close> returns an
  element of a non-empty sequence.
\<close>

definition uniform_ok :: "'g pylib \<Rightarrow> bool" where
  "uniform_ok L = (\<forall>a b g. a \<le> b \<longrightarrow> a \<le> fst (uniform L a b g) \<and> fst (uniform L a b g) \<le> b)"

definition choice_ok :: "'g pylib \<Rightarrow> bool" where
  "choice_ok L = (\<forall>n g. 0 < n \<longrightarrow> fst (choice_index L n g) < n)"

definition choice :: "'g pylib \<Rightarrow> 'a list \<Rightarrow> 'g \<Rightarrow> 'a \<times> 'g" where
  \<comment> \<open>\<^verbatim>\<open>random.choice(seq)\<close>; every call of the script passes a non-empty literal\<close>
  "choice L xs g = (let (k, g1) = choice_index L (length xs) g in (xs ! k, g1))"

subsection \<open>Formatting integers\<close>

fun digits :: "nat \<Rightarrow> string" where
  "digits n = (if n < 10 then [char_of (48 + n)] else digits (n div 10) @ [char_of (48 + n mod 10)])"

declare digits.simps [simp del]

definition str_int :: "int \<Rightarrow> string" where
  \<comment> \<open>\<^verbatim>\<open>str(i)\<close>, also what \<^verbatim>\<open>f"{i}"\<close> inserts\<close>
  "str_int i = (if i < 0 then CHR ''-'' # digits (nat (- i)) else digits (nat i))"

definition fmt_0d :: "nat \<Rightarrow> int \<Rightarrow> string" where
  \<comment> \<open>\<^verbatim>\<open>f"{i:0wd}"\<close>: zeros between the sign and the digits up to width \<open>w\<close>\<close>
  "fmt_0d w i =
     (if i < 0 then CHR ''-'' # replicate (w - 1 - length (digits (nat (- i)))) CHR ''0'' @ digits (nat (- i))
      else replicate (w - length (digits (nat i))) CHR ''0'' @ digits (nat i))"

subsection \<open>Loops that thread the random state\<close>

text \<open>
  \<^verbatim>\<open>for i in range(n): xs.append(body(i))\<close> where the body draws from the random source:
  the state left by one iteration is the state the next one starts from.
\<close>

primrec for_each :: "(nat \<Rightarrow> 'g \<Rightarrow> 'a \<times> 'g) \<Rightarrow> nat list \<Rightarrow> 'g \<Rightarrow> 'a list \<times> 'g" where
  "for_each body [] g = ([], g)"
| "for_each body (i # rest) g =
     (let (x, g1) = body i g; (xs, g2) = for_each body rest g1 in (x # xs, g2))"

primrec for_each_err ::
  "(nat \<Rightarrow> 'g \<Rightarrow> py_error + ('a \<times> 'g)) \<Rightarrow> nat list \<Rightarrow> 'g \<Rightarrow> py_error + ('a list \<times> 'g)" where
  "for_each_err body [] g = Inr ([], g)"
| "for_each_err body (i # rest) g =
     (case body i g of
        Inl e \<Rightarrow> Inl e
      | Inr (x, g1) \<Rightarrow>
          (case for_each_err body rest g1 of
             Inl e \<Rightarrow> Inl e
           | Inr (xs, g2) \<Rightarrow> Inr (x # xs, g2)))"

definition range :: "int \<Rightarrow> nat list" where
  \<comment> \<open>\<^verbatim>\<open>range(n)\<close>: empty for \<open>n \<le> 0\<close>\<close>
  "range n = [0..<nat n]"

section \<open>Points and polygons\<close>

definition minLon :: real where "minLon = 116.5"
definition maxLon :: real where "maxLon = 118.5"
definition minLat :: real where "minLat = - 23.5"
definition maxLat :: real where "maxLat = - 21.5"

text \<open>A coordinate pair \<^verbatim>\<open>[lon, lat]\<close> is a pair of reals; \<open>coord\<close> is the list JSON sees.\<close>

type_synonym point = "real \<times> real"

definition coord :: "point \<Rightarrow> json" where
  "coord p = JArr [JFloat (fst p), JFloat (snd p)]"

definition random_point :: "'g pylib \<Rightarrow> 'g \<Rightarrow> point \<times> 'g" where
  "random_point L g =
     (let (lon, g1) = uniform L minLon maxLon g;
          (lat, g2) = uniform L minLat maxLat g1
      in ((lon, lat), g2))"

definition polygon_vertex :: "'g pylib \<Rightarrow> point \<Rightarrow> real \<Rightarrow> int \<Rightarrow> nat \<Rightarrow> 'g \<Rightarrow> point \<times> 'g" where
  \<comment> \<open>one iteration of the loop of \<^verbatim>\<open>random_polygon\<close>; \<open>sz\<close> is its parameter \<^verbatim>\<open>size\<close>\<close>
  "polygon_vertex L center sz vertices i g =
     (let (d, g1) = uniform L (- 0.3) 0.3 g;
          angle = (2 * pi * real i) / real_of_int vertices + d;
          (u, g2) = uniform L 0.5 1.0 g1;
          r = sz * u
      in ((fst center + r * cos angle, snd center + r * sin angle * 0.7), g2))"

definition random_polygon ::
  "'g pylib \<Rightarrow> point \<Rightarrow> real \<Rightarrow> int \<Rightarrow> 'g \<Rightarrow> py_error + (point list \<times> 'g)" where
  \<comment> \<open>\<^verbatim>\<open>coords[0]\<close> raises IndexError when the loop ran no iteration\<close>
  "random_polygon L center sz vertices g =
     (let (coords, g1) = for_each (polygon_vertex L center sz vertices) (range vertices) g
      in case coords of
           [] \<Rightarrow> Inl IndexError
         | c # _ \<Rightarrow> Inr (coords @ [c], g1))"

section \<open>GeoJSON generation\<close>

definition feature :: "string \<Rightarrow> json \<Rightarrow> (string \<times> json) list \<Rightarrow> json" where
  \<comment> \<open>the dict literal every generator appends\<close>
  "feature gtype coords props =
     JObj [(''type'', JStr ''Feature''),
           (''geometry'', JObj [(''type'', JStr gtype), (''coordinates'', coords)]),
           (''properties'', JObj props)]"

definition feature_collection :: "json list \<Rightarrow> json" where
  "feature_collection features =
     JObj [(''type'', JStr ''FeatureCollection''), (''features'', JArr features)]"

definition clamp_fe :: "real \<Rightarrow> json" where
  \<comment> \<open>\<^verbatim>\<open>max(20, min(68, base_fe))\<close>: \<^verbatim>\<open>min\<close> and \<^verbatim>\<open>max\<close> return their first argument, the int,
      unless the second is strictly smaller (larger)\<close>
  "clamp_fe base_fe =
     (if base_fe < 68 then (if 20 < base_fe then JFloat base_fe else JInt 20) else JInt 68)"

definition round_json :: "'g pylib \<Rightarrow> json \<Rightarrow> nat \<Rightarrow> json" where
  \<comment> \<open>\<^verbatim>\<open>round(x, nd)\<close>: an int stays an int\<close>
  "round_json L v nd = (case v of JFloat x \<Rightarrow> JFloat (round_nd L x nd) | _ \<Rightarrow> v)"

definition rock_types :: "string list" where
  "rock_types = [''BIF'', ''Shale'', ''Dolerite'', ''Granite'', ''Laterite'']"

definition drillhole :: "'g pylib \<Rightarrow> nat \<Rightarrow> 'g \<Rightarrow> json \<times> 'g" where
  "drillhole L i g =
     (let (point, g1) = random_point L g;
          (base_fe0, g2) = gauss L 45 15 g1;
          base_fe = clamp_fe base_fe0;
          (depth_m, g3) = randint L 50 400 g2;
          (sio2, g4) = uniform L 2 15 g3;
          (al2o3, g5) = uniform L 1 8 g4;
          (loi, g6) = uniform L 2 12 g5;
          (rock_type, g7) = choice L rock_types g6;
          (year, g8) = randint L 2018 2024 g7
      in (feature ''Point'' (coord point)
            [(''hole_id'', JStr (''DDH-'' @ fmt_0d 4 (int i + 1))),
             (''depth_m'', JInt depth_m),
             (''fe_pct'', round_json L base_fe 2),
             (''sio2_pct'', JFloat (round_nd L sio2 2)),
             (''al2o3_pct'', JFloat (round_nd L al2o3 2)),
             (''loi_pct'', JFloat (round_nd L loi 2)),
             (''rock_type'', JStr rock_type),
             (''year'', JInt year)],
          g8))"

definition generate_drillholes_geojson :: "'g pylib \<Rightarrow> int \<Rightarrow> 'g \<Rightarrow> json \<times> 'g" where
  "generate_drillholes_geojson L n g =
     (let (features, g1) = for_each (drillhole L) (range n) g
      in (feature_collection features, g1))"

text \<open>A geological unit \<^verbatim>\<open>{"code", "name", "age_ma", "color"}\<close> is a tuple of its four values.\<close>

definition units :: "(string \<times> string \<times> int \<times> string) list" where
  "units =
     [(''BIF'', ''Banded Iron Formation'', 2500, ''#8B0000''),
      (''SHL'', ''Shale'', 2450, ''#556B2F''),
      (''DOL'', ''Dolerite'', 2000, ''#2F4F4F''),
      (''GRN'', ''Granite'', 2700, ''#FFB6C1''),
      (''LAT'', ''Laterite'', 50, ''#CD853F''),
      (''ALV'', ''Alluvium'', 1, ''#F5DEB3'')]"

definition geology_unit :: "'g pylib \<Rightarrow> nat \<Rightarrow> 'g \<Rightarrow> py_error + (json \<times> 'g)" where
  "geology_unit L i g =
     (let (center, g1) = random_point L g;
          ((code, name, age_ma, color), g2) = choice L units g1;
          (sz, g3) = uniform L 0.15 0.4 g2
      in case random_polygon L center sz 6 g3 of
           Inl e \<Rightarrow> Inl e
         | Inr (ring, g4) \<Rightarrow>
             (let (confidence, g5) = choice L [''High'', ''Medium'', ''Low''] g4
              in Inr (feature ''Polygon'' (JArr [JArr (map coord ring)])
                        [(''unit_id'', JInt (int i + 1)),
                         (''code'', JStr code),
                         (''name'', JStr name),
                         (''age_ma'', JInt age_ma),
                         (''color'', JStr color),
                         (''confidence'', JStr confidence)],
                      g5)))"

definition generate_geology_geojson :: "'g pylib \<Rightarrow> int \<Rightarrow> 'g \<Rightarrow> py_error + (json \<times> 'g)" where
  "generate_geology_geojson L n g =
     (case for_each_err (geology_unit L) (range n) g of
        Inl e \<Rightarrow> Inl e
      | Inr (features, g1) \<Rightarrow> Inr (feature_collection features, g1))"

definition tenement_types :: "string list" where
  "tenement_types = [''Exploration'', ''Mining'', ''Prospecting'', ''Retention'']"

definition companies :: "string list" where
  "companies = [''Iron Ore Co'', ''Pilbara Mining'', ''Red Earth Resources'', ''Outback Minerals'']"

definition tenement_ring :: "point \<Rightarrow> real \<Rightarrow> point list" where
  \<comment> \<open>the list literal \<^verbatim>\<open>coords\<close> of \<^verbatim>\<open>generate_tenements_geojson\<close>\<close>
  "tenement_ring center sz =
     [(fst center - sz, snd center - sz * 0.6),
      (fst center + sz, snd center - sz * 0.6),
      (fst center + sz, snd center + sz * 0.6),
      (fst center - sz, snd center + sz * 0.6),
      (fst center - sz, snd center - sz * 0.6)]"

definition tenement :: "'g pylib \<Rightarrow> nat \<Rightarrow> 'g \<Rightarrow> json \<times> 'g" where
  "tenement L i g =
     (let (center, g1) = random_point L g;
          (sz, g2) = uniform L 0.2 0.5 g1;
          coords = tenement_ring center sz;
          (id1, g3) = randint L 45 52 g2;
          (id2, g4) = randint L 1000 9999 g3;
          (ttype, g5) = choice L tenement_types g4;
          (holder, g6) = choice L companies g5;
          (gy, g7) = randint L 2010 2023 g6;
          (gm, g8) = randint L 1 12 g7;
          (gd, g9) = randint L 1 28 g8;
          (status, g10) = choice L [''Active'', ''Active'', ''Active'', ''Pending''] g9
      in (feature ''Polygon'' (JArr [JArr (map coord coords)])
            [(''tenement_id'', JStr (''E'' @ str_int id1 @ ''/'' @ str_int id2)),
             (''type'', JStr ttype),
             (''holder'', JStr holder),
             (''area_km2'', JFloat (round_nd L (sz * sz * 111 * 111 * 0.6) 1)),
             (''granted'', JStr (str_int gy @ ''-'' @ fmt_0d 2 gm @ ''-'' @ fmt_0d 2 gd)),
             (''status'', JStr status)],
          g10))"

definition generate_tenements_geojson :: "'g pylib \<Rightarrow> int \<Rightarrow> 'g \<Rightarrow> json \<times> 'g" where
  "generate_tenements_geojson L n g =
     (let (features, g1) = for_each (tenement L) (range n) g
      in (feature_collection features, g1))"

definition track_types :: "string list" where
  "track_types = [''Haul Road'', ''Access Track'', ''Exploration Track'', ''Service Road'']"

primrec track_path :: "'g pylib \<Rightarrow> nat \<Rightarrow> point \<Rightarrow> 'g \<Rightarrow> point list \<times> 'g" where
  \<comment> \<open>the inner loop: each step moves \<^verbatim>\<open>current\<close> and appends it\<close>
  "track_path L 0 current g = ([], g)"
| "track_path L (Suc k) current g =
     (let (dx, g1) = uniform L (- 0.1) 0.1 g;
          (dy, g2) = uniform L (- 0.1) 0.1 g1;
          next = (fst current + dx, snd current + dy);
          (rest, g3) = track_path L k next g2
      in (next # rest, g3))"

definition track :: "'g pylib \<Rightarrow> nat \<Rightarrow> 'g \<Rightarrow> json \<times> 'g" where
  "track L i g =
     (let (start, g1) = random_point L g;
          (steps, g2) = randint L 5 12 g1;
          (path, g3) = track_path L (nat steps) start g2;
          coords = start # path;
          (ttype, g4) = choice L track_types g3;
          (surface, g5) = choice L [''Gravel'', ''Dirt'', ''Sealed''] g4;
          (width_m, g6) = choice L [4, 6, 8, 10, 15 :: int] g5
      in (feature ''LineString'' (JArr (map coord coords))
            [(''track_id'', JInt (int i + 1)),
             (''name'', JStr (ttype @ '' '' @ str_int (int i + 1))),
             (''surface'', JStr surface),
             (''width_m'', JInt width_m)],
          g6))"

definition generate_tracks_geojson :: "'g pylib \<Rightarrow> int \<Rightarrow> 'g \<Rightarrow> json \<times> 'g" where
  "generate_tracks_geojson L n g =
     (let (features, g1) = for_each (track L) (range n) g
      in (feature_collection features, g1))"

section \<open>CSV generation\<close>

definition assay_row :: "'g pylib \<Rightarrow> nat \<Rightarrow> 'g \<Rightarrow> (string \<times> json) list \<times> 'g" where
  "assay_row L i g =
     (let (point, g1) = random_point L g;
          (fe, g2) = gauss L 50 12 g1;
          (sio2, g3) = uniform L 2 12 g2;
          (al2o3, g4) = uniform L 1 6 g3;
          (p, g5) = uniform L 0.02 0.15 g4;
          (s, g6) = uniform L 0.01 0.08 g5;
          (sample_type, g7) = choice L [''RC'', ''DD'', ''Surface'', ''Trench''] g6
      in ([(''sample_id'', JStr (''S'' @ fmt_0d 5 (int i + 1))),
           (''longitude'', JFloat (round_nd L (fst point) 6)),
           (''latitude'', JFloat (round_nd L (snd point) 6)),
           (''easting'', JFloat (round_nd L (fst point * 111000) 1)),
           (''northing'', JFloat (round_nd L (snd point * 111000) 1)),
           (''fe_pct'', JFloat (round_nd L fe 2)),
           (''sio2_pct'', JFloat (round_nd L sio2 2)),
           (''al2o3_pct'', JFloat (round_nd L al2o3 2)),
           (''p_pct'', JFloat (round_nd L p 3)),
           (''s_pct'', JFloat (round_nd L s 3)),
           (''sample_type'', JStr sample_type)],
          g7))"

definition generate_assays_csv :: "'g pylib \<Rightarrow> int \<Rightarrow> 'g \<Rightarrow> (string \<times> json) list list \<times> 'g" where
  "generate_assays_csv L n g = for_each (assay_row L) (range n) g"

definition survey_row :: "'g pylib \<Rightarrow> nat \<Rightarrow> 'g \<Rightarrow> (string \<times> json) list \<times> 'g" where
  "survey_row L i g =
     (let (point, g1) = random_point L g;
          (elevation, g2) = uniform L 300 600 g1;
          (description, g3) = choice L [''Control'', ''Boundary'', ''Feature'', ''Grid''] g2
      in ([(''point_id'', JInt (int i + 1)),
           (''x'', JFloat (round_nd L (fst point) 6)),
           (''y'', JFloat (round_nd L (snd point) 6)),
           (''elevation_m'', JFloat (round_nd L elevation 2)),
           (''description'', JStr description)],
          g3))"

definition generate_survey_csv :: "'g pylib \<Rightarrow> int \<Rightarrow> 'g \<Rightarrow> (string \<times> json) list list \<times> 'g" where
  "generate_survey_csv L n g = for_each (survey_row L) (range n) g"

subsection \<open>Joining strings\<close>

fun join :: "string \<Rightarrow> string list \<Rightarrow> string" where
  "join sep [] = []"
| "join sep [x] = x"
| "join sep (x # y # rest) = x @ sep @ join sep (y # rest)"

section \<open>Files and console\<close>

text \<open>
  What the script leaves behind: the files it writes under \<^verbatim>\<open>OUTPUT_DIR\<close> and the lines it
  prints. \<open>files\<close> is the list of writes in the order they happen, under the file's name
  in \<^verbatim>\<open>OUTPUT_DIR\<close>; the content of a file is what its last write put there. Files that are
  there before the script runs are the writes of the starting world. Failures of the
  file system (a full disk, a missing permission) are not modelled, and neither is the
  creation of the directory itself.

  The bytes that \<^verbatim>\<open>shapefile.Writer\<close>, \<^verbatim>\<open>rasterio\<close> and \<^verbatim>\<open>zipfile\<close> produce are not modelled
  either: the content of such a file is the data the script hands to the encoder. A CSV
  file is the list of its lines, without the line terminator.
\<close>

datatype content =
    Text string
  | Lines "string list"
  | Shp string "json list"
  | Shx nat
  | Dbf "(string \<times> char \<times> nat \<times> nat) list" "json list list"
  | Raster nat nat nat
  | Zip "(string \<times> content) list"

record 'g world =
  rng :: 'g
  files :: "(string \<times> content) list"
  out :: "string list"

definition write_file :: "string \<Rightarrow> content \<Rightarrow> 'g world \<Rightarrow> 'g world" where
  "write_file name c w = w\<lparr>files := files w @ [(name, c)]\<rparr>"

definition print :: "string \<Rightarrow> 'g world \<Rightarrow> 'g world" where
  "print line w = w\<lparr>out := out w @ [line]\<rparr>"

definition read_file :: "(string \<times> content) list \<Rightarrow> string \<Rightarrow> content option" where
  \<comment> \<open>the last write under the name\<close>
  "read_file fs name = map_of (rev fs) name"

definition glob_prefix :: "string \<Rightarrow> (string \<times> content) list \<Rightarrow> string list" where
  \<comment> \<open>\<^verbatim>\<open>OUTPUT_DIR.glob(prefix + "*")\<close>: the names that start with the prefix, each once\<close>
  "glob_prefix prefix fs = remdups (filter (\<lambda>name. take (length prefix) name = prefix) (map fst fs))"

subsection \<open>Subscripting Python values\<close>

definition getitem :: "json \<Rightarrow> string \<Rightarrow> py_error + json" where
  \<comment> \<open>\<^verbatim>\<open>v[k]\<close> with a string key: KeyError on a dict without it, TypeError on anything else\<close>
  "getitem v k =
     (case v of
        JObj kvs \<Rightarrow> (case map_of kvs k of None \<Rightarrow> Inl KeyError | Some x \<Rightarrow> Inr x)
      | _ \<Rightarrow> Inl TypeError)"

definition truthy :: "json \<Rightarrow> bool" where
  \<comment> \<open>\<^verbatim>\<open>bool(v)\<close>: empty containers, empty strings and zero are false\<close>
  "truthy v =
     (case v of
        JStr s \<Rightarrow> s \<noteq> []
      | JInt i \<Rightarrow> i \<noteq> 0
      | JFloat x \<Rightarrow> x \<noteq> 0
      | JArr xs \<Rightarrow> xs \<noteq> []
      | JObj kvs \<Rightarrow> kvs \<noteq> [])"

definition first_item :: "json \<Rightarrow> py_error + json" where
  \<comment> \<open>\<^verbatim>\<open>v[0]\<close> where the script goes on to subscript the result with a string: a dict has no
      key 0 (KeyError), a character of a string and a number cannot be subscripted so\<close>
  "first_item v =
     (case v of
        JArr (x # _) \<Rightarrow> Inr x
      | JArr [] \<Rightarrow> Inl IndexError
      | JObj _ \<Rightarrow> Inl KeyError
      | _ \<Rightarrow> Inl TypeError)"

definition items_of :: "json \<Rightarrow> py_error + json list" where
  \<comment> \<open>\<^verbatim>\<open>for f in v\<close> where each \<open>f\<close> is then subscripted with a string\<close>
  "items_of v =
     (case v of
        JArr xs \<Rightarrow> Inr xs
      | JObj _ \<Rightarrow> Inl TypeError
      | JStr _ \<Rightarrow> Inl TypeError
      | _ \<Rightarrow> Inl TypeError)"

definition py_len :: "json \<Rightarrow> py_error + nat" where
  \<comment> \<open>\<^verbatim>\<open>len(v)\<close>: a number has none\<close>
  "py_len v =
     (case v of
        JStr s \<Rightarrow> Inr (length s)
      | JArr xs \<Rightarrow> Inr (length xs)
      | JObj kvs \<Rightarrow> Inr (length kvs)
      | _ \<Rightarrow> Inl TypeError)"

definition dict_items :: "json \<Rightarrow> py_error + (string \<times> json) list" where
  \<comment> \<open>\<^verbatim>\<open>v.items()\<close>, \<^verbatim>\<open>v.keys()\<close>, \<^verbatim>\<open>v.get\<close>: only a dict has them\<close>
  "dict_items v = (case v of JObj kvs \<Rightarrow> Inr kvs | _ \<Rightarrow> Inl AttributeError)"

section \<open>Shapefile generation\<close>

definition shp_field :: "string \<times> json \<Rightarrow> string \<times> char \<times> nat \<times> nat" where
  \<comment> \<open>\<^verbatim>\<open>w.field(key[:10], ...)\<close>: numeric for an int or a float, else 100 characters\<close>
  "shp_field kv =
     (case snd kv of
        JInt _ \<Rightarrow> (take 10 (fst kv), CHR ''N'', 10, 0)
      | JFloat _ \<Rightarrow> (take 10 (fst kv), CHR ''N'', 16, 6)
      | _ \<Rightarrow> (take 10 (fst kv), CHR ''C'', 100, 0))"

definition shp_shape :: "string \<Rightarrow> json \<Rightarrow> json" where
  \<comment> \<open>what \<^verbatim>\<open>w.point\<close>, \<^verbatim>\<open>w.line\<close> or \<^verbatim>\<open>w.poly\<close> is given\<close>
  "shp_shape geom_type coords = (if geom_type = ''LineString'' then JArr [coords] else coords)"

definition shp_row :: "string \<Rightarrow> string list \<Rightarrow> json \<Rightarrow> py_error + (json \<times> json list)" where
  \<comment> \<open>one iteration of the loop over the features: the shape and the record\<close>
  "shp_row geom_type keys f =
     (case getitem f ''geometry'' of
        Inl e \<Rightarrow> Inl e
      | Inr geom \<Rightarrow>
          (case getitem f ''properties'' of
             Inl e \<Rightarrow> Inl e
           | Inr props \<Rightarrow>
               (case getitem geom ''coordinates'' of
                  Inl e \<Rightarrow> Inl e
                | Inr coords \<Rightarrow>
                    (case dict_items props of
                       Inl e \<Rightarrow> Inl e
                     | Inr kvs \<Rightarrow>
                         Inr (shp_shape geom_type coords,
                              map (\<lambda>k. case map_of kvs k of Some v \<Rightarrow> v | None \<Rightarrow> JStr []) keys)))))"

primrec shp_rows :: "string \<Rightarrow> string list \<Rightarrow> json list \<Rightarrow> py_error + (json \<times> json list) list" where
  "shp_rows geom_type keys [] = Inr []"
| "shp_rows geom_type keys (f # fs) =
     (case shp_row geom_type keys f of
        Inl e \<Rightarrow> Inl e
      | Inr r \<Rightarrow>
          (case shp_rows geom_type keys fs of
             Inl e \<Rightarrow> Inl e
           | Inr rs \<Rightarrow> Inr (r # rs)))"

definition prj_content :: string where
  "prj_content =
     ''GEOGCS['' @ [CHR 0x22] @ ''WGS 84'' @ [CHR 0x22] @ '',DATUM['' @ [CHR 0x22] @ ''WGS_1984''
     @ [CHR 0x22] @ '',SPHEROID['' @ [CHR 0x22] @ ''WGS 84'' @ [CHR 0x22]
     @ '',6378137,298.257223563]],PRIMEM['' @ [CHR 0x22] @ ''Greenwich'' @ [CHR 0x22]
     @ '',0],UNIT['' @ [CHR 0x22] @ ''degree'' @ [CHR 0x22] @ '',0.0174532925199433]]''"

definition shapefile_writes ::
  "string \<Rightarrow> string \<Rightarrow> (string \<times> json) list \<Rightarrow> (json \<times> json list) list \<Rightarrow> (string \<times> content) list" where
  \<comment> \<open>the three files of the writer, and the \<^verbatim>\<open>.prj\<close> file the script writes after closing it\<close>
  "shapefile_writes name geom_type props rows =
     [(name @ ''.shp'', Shp geom_type (map fst rows)),
      (name @ ''.shx'', Shx (length rows)),
      (name @ ''.dbf'', Dbf (map shp_field props) (map snd rows)),
      (name @ ''.prj'', Text prj_content)]"

definition generate_shapefile ::
  "'g pylib \<Rightarrow> json \<Rightarrow> string \<Rightarrow> 'g world \<Rightarrow> py_error + (bool \<times> 'g world)" where
  "generate_shapefile L geojson_data name w =
     (if \<not> has_shapefile L then
        Inr (False, print (''  Skipping '' @ name @ ''.shp (pip install pyshp)'') w)
      else
        case getitem geojson_data ''features'' of
          Inl e \<Rightarrow> Inl e
        | Inr features \<Rightarrow>
            if \<not> truthy features then Inr (False, w)
            else
              case first_item features of
                Inl e \<Rightarrow> Inl e
              | Inr f0 \<Rightarrow>
                  (case getitem f0 ''geometry'' of
                     Inl e \<Rightarrow> Inl e
                   | Inr geom0 \<Rightarrow>
                       (case getitem geom0 ''type'' of
                          Inl e \<Rightarrow> Inl e
                        | Inr geom_type \<Rightarrow>
                            if geom_type \<noteq> JStr ''Point'' \<and> geom_type \<noteq> JStr ''LineString''
                               \<and> geom_type \<noteq> JStr ''Polygon''
                            then Inr (False, w)
                            else
                              case geom_type of
                                JStr gt \<Rightarrow>
                                  (case getitem f0 ''properties'' of
                                     Inl e \<Rightarrow> Inl e
                                   | Inr props0 \<Rightarrow>
                                       (case dict_items props0 of
                                          Inl e \<Rightarrow> Inl e
                                        | Inr props \<Rightarrow>
                                            (case items_of features of
                                               Inl e \<Rightarrow> Inl e
                                             | Inr fs \<Rightarrow>
                                                 (case shp_rows gt (map fst props) fs of
                                                    Inl e \<Rightarrow> Inl e
                                                  | Inr rows \<Rightarrow>
                                                      Inr (True,
                                                           w\<lparr>files := files w
                                                               @ shapefile_writes name gt props rows\<rparr>)))))
                              | _ \<Rightarrow> Inr (False, w))))"

section \<open>GeoTIFF generation\<close>

definition generate_geotiff :: "'g pylib \<Rightarrow> 'g world \<Rightarrow> bool \<times> 'g world" where
  \<comment> \<open>the pixel values are floating point and are not modelled: a raster is its width, height
      and number of bands\<close>
  "generate_geotiff L w =
     (if \<not> (has_numpy L \<and> has_rasterio L) then
        (False, print ''  Skipping GeoTIFF (pip install numpy rasterio)'' w)
      else
        (True, write_file ''satellite_rgb.tif'' (Raster 256 256 3)
                 (write_file ''elevation.tif'' (Raster 256 256 1) w)))"

section \<open>Main\<close>

definition dump_geojson :: "'g pylib \<Rightarrow> string \<times> json \<Rightarrow> 'g world \<Rightarrow> py_error + 'g world" where
  \<comment> \<open>one iteration of the loop that writes \<^verbatim>\<open>{name}.geojson\<close>\<close>
  "dump_geojson L nd w =
     (let w1 = write_file (fst nd @ ''.geojson'') (Text (json_dumps L (snd nd) 2)) w
      in case getitem (snd nd) ''features'' of
           Inl e \<Rightarrow> Inl e
         | Inr fs \<Rightarrow>
             (case py_len fs of
                Inl e \<Rightarrow> Inl e
              | Inr k \<Rightarrow>
                  Inr (print (''  '' @ fst nd @ ''.geojson ('' @ str_int (int k) @ '' features)'') w1)))"

primrec dump_all :: "'g pylib \<Rightarrow> (string \<times> json) list \<Rightarrow> 'g world \<Rightarrow> py_error + 'g world" where
  "dump_all L [] w = Inr w"
| "dump_all L (nd # rest) w =
     (case dump_geojson L nd w of Inl e \<Rightarrow> Inl e | Inr w1 \<Rightarrow> dump_all L rest w1)"

definition csv_field :: "string \<Rightarrow> string" where
  \<comment> \<open>the default quoting of \<^verbatim>\<open>csv\<close>: a field with a separator, a quote or a line break is
      quoted, its quotes doubled\<close>
  "csv_field s =
     (if \<exists>c \<in> set s. c \<in> {CHR '','', CHR 0x22, CHR 0x0D, CHR 0x0A}
      then [CHR 0x22] @ concat (map (\<lambda>c. if c = CHR 0x22 then [c, c] else [c]) s) @ [CHR 0x22]
      else s)"

definition csv_cell :: "'g pylib \<Rightarrow> json \<Rightarrow> string" where
  \<comment> \<open>a row of the script holds strings, ints and floats only; a list or dict would be
      written as \<^verbatim>\<open>str\<close> prints it, which is taken to be \<open>json_dumps\<close> here\<close>
  "csv_cell L v =
     (case v of
        JStr s \<Rightarrow> csv_field s
      | JInt i \<Rightarrow> str_int i
      | JFloat x \<Rightarrow> csv_field (repr_float L x)
      | _ \<Rightarrow> csv_field (json_dumps L v 0))"

definition csv_line :: "string list \<Rightarrow> string" where
  "csv_line cells = join '','' cells"

definition csv_row :: "'g pylib \<Rightarrow> string list \<Rightarrow> (string \<times> json) list \<Rightarrow> py_error + string" where
  \<comment> \<open>\<^verbatim>\<open>DictWriter.writerow\<close>: ValueError on a key that is no field name, the empty string for
      a field the row does not have\<close>
  "csv_row L fieldnames row =
     (if \<exists>k \<in> set (map fst row). k \<notin> set fieldnames then Inl ValueError
      else Inr (csv_line (map (\<lambda>k. case map_of row k of Some v \<Rightarrow> csv_cell L v | None \<Rightarrow> []) fieldnames)))"

primrec csv_rows :: "'g pylib \<Rightarrow> string list \<Rightarrow> (string \<times> json) list list \<Rightarrow> py_error + string list" where
  "csv_rows L fieldnames [] = Inr []"
| "csv_rows L fieldnames (row # rest) =
     (case csv_row L fieldnames row of
        Inl e \<Rightarrow> Inl e
      | Inr line \<Rightarrow>
          (case csv_rows L fieldnames rest of
             Inl e \<Rightarrow> Inl e
           | Inr ls \<Rightarrow> Inr (line # ls)))"

definition write_csv ::
  "'g pylib \<Rightarrow> string \<Rightarrow> (string \<times> json) list list \<Rightarrow> 'g world \<Rightarrow> py_error + 'g world" where
  \<comment> \<open>the block main runs for each of the two tables: the field names are the keys of the
      first row (IndexError without one), then the header and the rows\<close>
  "write_csv L name rows w =
     (case rows of
        [] \<Rightarrow> Inl IndexError
      | r0 # _ \<Rightarrow>
          (let fieldnames = map fst r0
           in case csv_rows L fieldnames rows of
                Inl e \<Rightarrow> Inl e
              | Inr ls \<Rightarrow>
                  Inr (print (''  '' @ name @ '' ('' @ str_int (int (length rows)) @ '' rows)'')
                         (write_file name (Lines (csv_line (map csv_field fieldnames) # ls)) w))))"

primrec shapefile_all :: "'g pylib \<Rightarrow> (string \<times> json) list \<Rightarrow> 'g world \<Rightarrow> py_error + 'g world" where
  \<comment> \<open>the loop that calls \<open>generate_shapefile\<close> on every dataset\<close>
  "shapefile_all L [] w = Inr w"
| "shapefile_all L (nd # rest) w =
     (case generate_shapefile L (snd nd) (fst nd) w of
        Inl e \<Rightarrow> Inl e
      | Inr (ok, w1) \<Rightarrow>
          shapefile_all L rest (if ok then print (''  '' @ fst nd @ ''.shp'') w1 else w1))"

definition zip_drillholes :: "'g world \<Rightarrow> 'g world" where
  \<comment> \<open>the archive of every file named \<^verbatim>\<open>drillholes.*\<close>, when there is one\<close>
  "zip_drillholes w =
     (let shp_files = glob_prefix ''drillholes.'' (files w)
      in if shp_files = [] then w
         else print ([CHR 0x0A] @ ''Zipped shapefile: drillholes_shp.zip'')
                (write_file ''drillholes_shp.zip''
                   (Zip (List.map_filter
                           (\<lambda>f. case read_file (files w) f of Some c \<Rightarrow> Some (f, c) | None \<Rightarrow> None)
                           shp_files))
                   w))"

definition main :: "'g pylib \<Rightarrow> 'g world \<Rightarrow> py_error + 'g world" where
  "main L w =
     (let w1 = print (''Output directory: '' @ output_dir L) (print ''Generating Spinifex test data...'' w);
          w2 = print ([CHR 0x0A] @ ''GeoJSON files:'') w1;
          (drillholes, g1) = generate_drillholes_geojson L 50 (rng w2)
      in case generate_geology_geojson L 15 g1 of
           Inl e \<Rightarrow> Inl e
         | Inr (geology, g2) \<Rightarrow>
             (let (tenements, g3) = generate_tenements_geojson L 8 g2;
                  (tracks, g4) = generate_tracks_geojson L 5 g3;
                  datasets = [(''drillholes'', drillholes), (''geology'', geology),
                              (''tenements'', tenements), (''tracks'', tracks)]
              in case dump_all L datasets (w2\<lparr>rng := g4\<rparr>) of
                   Inl e \<Rightarrow> Inl e
                 | Inr w3 \<Rightarrow>
                     (let w4 = print ([CHR 0x0A] @ ''CSV files:'') w3;
                          (assays, g5) = generate_assays_csv L 100 (rng w4)
                      in case write_csv L ''assays.csv'' assays (w4\<lparr>rng := g5\<rparr>) of
                           Inl e \<Rightarrow> Inl e
                         | Inr w5 \<Rightarrow>
                             (let (survey, g6) = generate_survey_csv L 200 (rng w5)
                              in case write_csv L ''survey_points.csv'' survey (w5\<lparr>rng := g6\<rparr>) of
                                   Inl e \<Rightarrow> Inl e
                                 | Inr w6 \<Rightarrow>
                                     (case shapefile_all L datasets (print ([CHR 0x0A] @ ''Shapefiles:'') w6) of
                                        Inl e \<Rightarrow> Inl e
                                      | Inr w7 \<Rightarrow>
                                          (let (tif, w8) = generate_geotiff L (print ([CHR 0x0A] @ ''GeoTIFF files:'') w7);
                                               w9 = (if tif
                                                     then print ''  satellite_rgb.tif (3 bands)''
                                                            (print ''  elevation.tif (single band)'' w8)
                                                     else w8)
                                           in Inr (print ([CHR 0x0A] @ ''Done! Drag files onto Spinifex to test.'')
                                                     (zip_drillholes w9))))))))"


section \<open>Reading the generated values\<close>

definition obj_get :: "json \<Rightarrow> string \<Rightarrow> json option" where
  \<comment> \<open>\<^verbatim>\<open>d.get(k)\<close> on a dict, None on anything else\<close>
  "obj_get v k = (case v of JObj kvs \<Rightarrow> map_of kvs k | _ \<Rightarrow> None)"

definition features_of :: "json \<Rightarrow> json list" where
  "features_of v = (case obj_get v ''features'' of Some (JArr fs) \<Rightarrow> fs | _ \<Rightarrow> [])"

definition geometry_type :: "json \<Rightarrow> json option" where
  "geometry_type f = (case obj_get f ''geometry'' of Some geom \<Rightarrow> obj_get geom ''type'' | None \<Rightarrow> None)"

definition coordinates :: "json \<Rightarrow> json option" where
  "coordinates f = (case obj_get f ''geometry'' of Some geom \<Rightarrow> obj_get geom ''coordinates'' | None \<Rightarrow> None)"

definition in_bounds :: "point \<Rightarrow> bool" where
  "in_bounds p = (116.5 \<le> fst p \<and> fst p \<le> 118.5 \<and> - 23.5 \<le> snd p \<and> snd p \<le> - 21.5)"

section \<open>A pseudo-random source to run the model on\<close>

text \<open>
  A linear congruential generator stands in for the Mersenne Twister of \<^verbatim>\<open>random\<close> where a
  theorem is run on a concrete input: its state is the last number drawn, and every draw
  steps the state once. Its \<open>gauss\<close> is a centred draw of the right scale, not a normal
  one; its \<open>json_dumps\<close> writes one line whatever the indent.
\<close>

definition lcg_next :: "nat \<Rightarrow> nat" where
  "lcg_next s = (75 * s + 74) mod 65537"

definition lcg_unit :: "nat \<Rightarrow> real" where
  "lcg_unit s = real (s mod 65537) / 65537"

definition lcg_index :: "nat \<Rightarrow> nat \<Rightarrow> nat" where
  "lcg_index n s = (s mod 65537) * n div 65537"

definition lcg_round :: "real \<Rightarrow> nat \<Rightarrow> real" where
  "lcg_round x nd = real_of_int (round (x * 10 ^ nd)) / 10 ^ nd"

definition lcg_repr :: "real \<Rightarrow> string" where
  "lcg_repr x =
     (if x < 0 then ''-'' else '''') @ str_int \<lfloor>\<bar>x\<bar>\<rfloor> @ ''.'' @ fmt_0d 6 (\<lfloor>\<bar>x\<bar> * 1000000\<rfloor> mod 1000000)"

fun json_text :: "(real \<Rightarrow> string) \<Rightarrow> json \<Rightarrow> string" where
  "json_text fr (JStr s) = CHR 0x22 # s @ [CHR 0x22]"
| "json_text fr (JInt i) = str_int i"
| "json_text fr (JFloat x) = fr x"
| "json_text fr (JArr vs) = ''['' @ join '', '' (map (json_text fr) vs) @ '']''"
| "json_text fr (JObj kvs) =
     ''{'' @ join '', '' (map (\<lambda>kv. CHR 0x22 # fst kv @ [CHR 0x22] @ '': '' @ json_text fr (snd kv)) kvs) @ ''}''"

definition lcg_lib :: "nat pylib" where
  "lcg_lib =
     \<lparr> uniform = (\<lambda>a b s. (a + (b - a) * lcg_unit (lcg_next s), lcg_next s)),
       gauss = (\<lambda>mu sigma s. (mu + sigma * (2 * lcg_unit (lcg_next s) - 1), lcg_next s)),
       randint = (\<lambda>a b s. (a + \<lfloor>lcg_unit (lcg_next s) * real_of_int (b - a + 1)\<rfloor>, lcg_next s)),
       choice_index = (\<lambda>n s. (lcg_index n (lcg_next s), lcg_next s)),
       round_nd = lcg_round,
       repr_float = lcg_repr,
       json_dumps = (\<lambda>v indent. json_text lcg_repr v),
       has_shapefile = False,
       has_numpy = False,
       has_rasterio = False,
       output_dir = ''test_data'' \<rparr>"

section \<open>Predicates the properties are stated with\<close>

definition rounds_of :: "'g pylib \<Rightarrow> string \<Rightarrow> string \<Rightarrow> point \<Rightarrow> (string \<times> json) list \<Rightarrow> bool" where
  \<comment> \<open>the row's fields \<open>kx\<close> and \<open>ky\<close> hold the point \<open>p\<close> rounded to six places\<close>
  "rounds_of L kx ky p row =
     (map_of row kx = Some (JFloat (round_nd L (fst p) 6)) \<and>
      map_of row ky = Some (JFloat (round_nd L (snd p) 6)))"

definition has_properties :: "json \<Rightarrow> bool" where
  \<comment> \<open>the value has a \<^verbatim>\<open>"properties"\<close> object with at least one key\<close>
  "has_properties f = (case obj_get f ''properties'' of Some (JObj ps) \<Rightarrow> ps \<noteq> [] | _ \<Rightarrow> False)"

definition closed_ring :: "nat \<Rightarrow> point list \<Rightarrow> bool" where
  \<comment> \<open>\<open>k\<close> coordinate pairs, the last equal to the first\<close>
  "closed_ring k ring = (length ring = k \<and> ring \<noteq> [] \<and> last ring = hd ring)"

definition tenement_properties :: "(string \<times> json) list \<Rightarrow> bool" where
  \<comment> \<open>the administrative attributes of a tenement, as the glossary lists them\<close>
  "tenement_properties ps =
     (map fst ps = [''tenement_id'', ''type'', ''holder'', ''area_km2'', ''granted'', ''status'']
      \<and> (\<exists>s \<in> {''Active'', ''Pending''}. map_of ps ''status'' = Some (JStr s))
      \<and> (\<exists>t \<in> {''Exploration'', ''Mining'', ''Prospecting'', ''Retention''}.
            map_of ps ''type'' = Some (JStr t)))"

definition feature_schema :: "json \<Rightarrow> json option \<times> string list" where
  \<comment> \<open>what of a feature is fixed by the generator: its geometry type and the names of its properties\<close>
  "feature_schema f =
     (geometry_type f, case obj_get f ''properties'' of Some (JObj ps) \<Rightarrow> map fst ps | _ \<Rightarrow> [])"

definition is_feature :: "json \<Rightarrow> bool" where
  \<comment> \<open>a GeoJSON feature: type "Feature", a geometry object with a type and coordinates, and a
      properties object\<close>
  "is_feature f =
     (obj_get f ''type'' = Some (JStr ''Feature'')
      \<and> (case obj_get f ''geometry'' of
            Some (JObj geom) \<Rightarrow> map_of geom ''type'' \<noteq> None \<and> map_of geom ''coordinates'' \<noteq> None
          | _ \<Rightarrow> False)
      \<and> (case obj_get f ''properties'' of Some (JObj _) \<Rightarrow> True | _ \<Rightarrow> False))"

definition is_feature_collection :: "json \<Rightarrow> bool" where
  "is_feature_collection v =
     (obj_get v ''type'' = Some (JStr ''FeatureCollection'')
      \<and> (case obj_get v ''features'' of Some (JArr fs) \<Rightarrow> list_all is_feature fs | _ \<Rightarrow> False))"

definition shapefile_name :: "string \<Rightarrow> bool" where
  \<comment> \<open>a name one of the four files of a shapefile has\<close>
  "shapefile_name name =
     (\<exists>base \<in> {''drillholes'', ''geology'', ''tenements'', ''tracks''}.
        \<exists>ext \<in> {''.shp'', ''.shx'', ''.dbf'', ''.prj''}. name = base @ ext)"

text \<open>The test library with the shapefile module, and a starting world with no files.\<close>

definition pyshp_lib :: "nat pylib" where
  "pyshp_lib = lcg_lib\<lparr>has_shapefile := True\<rparr>"

definition world0 :: "nat world" where
  "world0 = \<lparr>rng = 42, files = [], out = []\<rparr>"

definition dataset_ok :: "string \<times> json \<Rightarrow> bool" where
  \<comment> \<open>an entry of main's \<^verbatim>\<open>datasets\<close>: one of the four names with a collection of features\<close>
  "dataset_ok nd = (fst nd \<in> {''drillholes'', ''geology'', ''tenements'', ''tracks''}
                    \<and> (\<exists>fs. snd nd = feature_collection fs \<and> list_all is_feature fs))"

definition assay_fields :: "string list" where
  "assay_fields =
     [''sample_id'', ''longitude'', ''latitude'', ''easting'', ''northing'', ''fe_pct'', ''sio2_pct'',
      ''al2o3_pct'', ''p_pct'', ''s_pct'', ''sample_type'']"

definition survey_fields :: "string list" where
  "survey_fields = [''point_id'', ''x'', ''y'', ''elevation_m'', ''description'']"

section \<open>Lemmas on the loops\<close>

lemma for_each_length: "length (fst (for_each body ns g)) = length ns"
  by (induction ns arbitrary: g) (simp_all add: Let_def case_prod_beta)

lemma for_each_all:
  assumes "\<And>i g. P (fst (body i g))"
  shows "list_all P (fst (for_each body ns g))"
proof (induction ns arbitrary: g)
  case Nil
  show ?case by simp
next
  case (Cons i rest)
  have "P (fst (body i g))" by (rule assms)
  moreover have "list_all P (fst (for_each body rest (snd (body i g))))" by (rule Cons.IH)
  ultimately show ?case by (simp add: Let_def case_prod_beta)
qed

lemma range_length: "length (range n) = nat n"
  by (simp add: range_def)

section \<open>The contracts of the draws on the test generator\<close>

lemma lcg_unit_bounds: "0 \<le> lcg_unit s \<and> lcg_unit s < 1"
  by (simp add: lcg_unit_def)

lemma lcg_uniform_ok: "uniform_ok lcg_lib"
proof -
  have "a \<le> a + (b - a) * lcg_unit s \<and> a + (b - a) * lcg_unit s \<le> b" if "a \<le> b" for a b :: real and s
  proof -
    have u: "0 \<le> lcg_unit s" "lcg_unit s \<le> 1" using lcg_unit_bounds [of s] by simp_all
    have "0 \<le> (b - a) * lcg_unit s" using that u by simp
    moreover have "(b - a) * lcg_unit s \<le> (b - a) * 1"
      using that u by (intro mult_left_mono) simp_all
    ultimately show ?thesis by simp
  qed
  then show ?thesis by (simp add: uniform_ok_def lcg_lib_def)
qed

lemma lcg_choice_ok: "choice_ok lcg_lib"
proof -
  have "(s mod 65537) * n div 65537 < n" if "0 < n" for s n :: nat
  proof -
    have "(s mod 65537) * n < 65537 * n" using that by simp
    then show ?thesis by (simp add: less_mult_imp_div_less mult.commute)
  qed
  then show ?thesis by (simp add: choice_ok_def lcg_lib_def lcg_index_def)
qed

section \<open>Reading features and rows\<close>

lemma uniform_okD:
  "uniform_ok L \<Longrightarrow> a \<le> b \<Longrightarrow> a \<le> fst (uniform L a b g) \<and> fst (uniform L a b g) \<le> b"
  by (simp add: uniform_ok_def)

lemma random_point_in_bounds:
  assumes "uniform_ok L"
  shows "in_bounds (fst (random_point L g))"
proof -
  have "minLon \<le> fst (uniform L minLon maxLon g) \<and> fst (uniform L minLon maxLon g) \<le> maxLon"
    by (rule uniform_okD [OF assms]) (simp add: minLon_def maxLon_def)
  moreover have "minLat \<le> fst (uniform L minLat maxLat g') \<and> fst (uniform L minLat maxLat g') \<le> maxLat" for g'
    by (rule uniform_okD [OF assms]) (simp add: minLat_def maxLat_def)
  ultimately show ?thesis
    by (simp add: in_bounds_def random_point_def Let_def case_prod_beta
        minLon_def maxLon_def minLat_def maxLat_def)
qed

lemma features_of_collection: "features_of (feature_collection fs) = fs"
  by (simp add: features_of_def feature_collection_def obj_get_def)

lemma coordinates_feature: "coordinates (feature t c ps) = Some c"
  by (simp add: coordinates_def feature_def obj_get_def)

lemma geometry_type_feature: "geometry_type (feature t c ps) = Some (JStr t)"
  by (simp add: geometry_type_def feature_def obj_get_def)

lemma properties_feature: "obj_get (feature t c ps) ''properties'' = Some (JObj ps)"
  by (simp add: feature_def obj_get_def)

lemma drillhole_point:
  assumes "uniform_ok L"
  shows "\<exists>p. in_bounds p \<and> coordinates (fst (drillhole L i g)) = Some (coord p)"
proof (intro exI conjI)
  show "in_bounds (fst (random_point L g))" by (rule random_point_in_bounds [OF assms])
  show "coordinates (fst (drillhole L i g)) = Some (coord (fst (random_point L g)))"
    by (simp add: drillhole_def Let_def case_prod_beta coordinates_feature)
qed

lemma assay_row_point:
  assumes "uniform_ok L"
  shows "\<exists>p. in_bounds p \<and> rounds_of L ''longitude'' ''latitude'' p (fst (assay_row L i g))"
proof (intro exI conjI)
  show "in_bounds (fst (random_point L g))" by (rule random_point_in_bounds [OF assms])
  show "rounds_of L ''longitude'' ''latitude'' (fst (random_point L g)) (fst (assay_row L i g))"
    by (simp add: rounds_of_def assay_row_def Let_def case_prod_beta)
qed

lemma survey_row_point:
  assumes "uniform_ok L"
  shows "\<exists>p. in_bounds p \<and> rounds_of L ''x'' ''y'' p (fst (survey_row L i g))"
proof (intro exI conjI)
  show "in_bounds (fst (random_point L g))" by (rule random_point_in_bounds [OF assms])
  show "rounds_of L ''x'' ''y'' (fst (random_point L g)) (fst (survey_row L i g))"
    by (simp add: rounds_of_def survey_row_def Let_def case_prod_beta)
qed

section \<open>Points within the bounds\<close>

text \<open>
  Claim C8. Every coordinate pair returned by \<open>random_point\<close> lies within the configured
  bounds: whatever the state of the random source, the longitude is in \<open>[116.5, 118.5]\<close>
  and the latitude in \<open>[-23.5, -21.5]\<close>. Consequently the point of every drillhole
  feature, and the point whose rounding gives the longitude and latitude of every assay
  row and the x and y of every survey row, lies within those bounds. The hypothesis is
  the contract of \<^verbatim>\<open>random.uniform\<close>.
\<close>

theorem random_point_within_bounds:
  assumes "uniform_ok L"
  shows "in_bounds (fst (random_point L g))
    \<and> (\<forall>f \<in> set (features_of (fst (generate_drillholes_geojson L n g))).
          \<exists>p. in_bounds p \<and> coordinates f = Some (coord p))
    \<and> (\<forall>row \<in> set (fst (generate_assays_csv L n g)).
          \<exists>p. in_bounds p \<and> rounds_of L ''longitude'' ''latitude'' p row)
    \<and> (\<forall>row \<in> set (fst (generate_survey_csv L n g)).
          \<exists>p. in_bounds p \<and> rounds_of L ''x'' ''y'' p row)"
proof -
  have pt: "in_bounds (fst (random_point L g))"
    by (rule random_point_in_bounds [OF assms])
  have d: "list_all (\<lambda>f. \<exists>p. in_bounds p \<and> coordinates f = Some (coord p))
             (fst (for_each (drillhole L) (range n) g))"
    by (rule for_each_all) (rule drillhole_point [OF assms])
  have a: "list_all (\<lambda>row. \<exists>p. in_bounds p \<and> rounds_of L ''longitude'' ''latitude'' p row)
             (fst (for_each (assay_row L) (range n) g))"
    by (rule for_each_all) (rule assay_row_point [OF assms])
  have s: "list_all (\<lambda>row. \<exists>p. in_bounds p \<and> rounds_of L ''x'' ''y'' p row)
             (fst (for_each (survey_row L) (range n) g))"
    by (rule for_each_all) (rule survey_row_point [OF assms])
  have d': "\<forall>f \<in> set (features_of (fst (generate_drillholes_geojson L n g))).
          \<exists>p. in_bounds p \<and> coordinates f = Some (coord p)"
    using d by (simp add: generate_drillholes_geojson_def case_prod_beta features_of_collection list_all_iff)
  have a': "\<forall>row \<in> set (fst (generate_assays_csv L n g)).
          \<exists>p. in_bounds p \<and> rounds_of L ''longitude'' ''latitude'' p row"
    using a by (simp add: generate_assays_csv_def list_all_iff)
  have s': "\<forall>row \<in> set (fst (generate_survey_csv L n g)).
          \<exists>p. in_bounds p \<and> rounds_of L ''x'' ''y'' p row"
    using s by (simp add: generate_survey_csv_def list_all_iff)
  from pt d' a' s' show ?thesis by blast
qed

lemma lcg_random_point_1: "fst (random_point lcg_lib 1) = (15270717 / 131074, - (3035243 / 131074))"
  by (simp add: random_point_def lcg_lib_def lcg_next_def lcg_unit_def minLon_def maxLon_def
      minLat_def maxLat_def)

theorem random_point_within_bounds_witness:
  "uniform_ok lcg_lib
   \<and> fst (random_point lcg_lib 1) = (15270717 / 131074, - (3035243 / 131074))
   \<and> in_bounds (15270717 / 131074, - (3035243 / 131074))
   \<and> list_all (\<lambda>f. \<exists>p. in_bounds p \<and> coordinates f = Some (coord p))
        (features_of (fst (generate_drillholes_geojson lcg_lib 2 1)))
   \<and> list_all (\<lambda>row. \<exists>p. in_bounds p \<and> rounds_of lcg_lib ''longitude'' ''latitude'' p row)
        (fst (generate_assays_csv lcg_lib 2 1))
   \<and> list_all (\<lambda>row. \<exists>p. in_bounds p \<and> rounds_of lcg_lib ''x'' ''y'' p row)
        (fst (generate_survey_csv lcg_lib 2 1))"
  using random_point_within_bounds [OF lcg_uniform_ok, of 1 2] lcg_uniform_ok lcg_random_point_1
  unfolding list_all_iff by simp


section \<open>Features, rings and tenements\<close>

lemma for_each_err_all:
  assumes "\<And>i g. \<exists>x g'. body i g = Inr (x, g') \<and> P x"
  shows "\<exists>xs g'. for_each_err body ns g = Inr (xs, g') \<and> list_all P xs \<and> length xs = length ns"
proof (induction ns arbitrary: g)
  case Nil
  show ?case by simp
next
  case (Cons i rest)
  obtain x g1 where b: "body i g = Inr (x, g1)" "P x" using assms by blast
  obtain xs g2 where r: "for_each_err body rest g1 = Inr (xs, g2)" "list_all P xs" "length xs = length rest"
    using Cons.IH by blast
  show ?case using b r by simp
qed

lemma choice_in_set:
  assumes "choice_ok L" and "xs \<noteq> []"
  shows "fst (choice L xs g) \<in> set xs"
proof -
  have "fst (choice_index L (length xs) g) < length xs"
    using assms by (simp add: choice_ok_def)
  then show ?thesis by (simp add: choice_def case_prod_beta)
qed

lemma random_polygon_closed:
  assumes "1 \<le> vertices"
  shows "\<exists>ring g'. random_polygon L center sz vertices g = Inr (ring, g')
           \<and> closed_ring (nat vertices + 1) ring"
proof -
  define r where "r = for_each (polygon_vertex L center sz vertices) (range vertices) g"
  have len: "length (fst r) = nat vertices"
    by (simp add: r_def for_each_length range_length)
  then obtain c cs where cs: "fst r = c # cs"
    using assms by (cases "fst r") auto
  have "random_polygon L center sz vertices g = Inr (fst r @ [c], snd r)"
    using cs by (simp add: random_polygon_def r_def [symmetric] case_prod_beta)
  moreover have "closed_ring (nat vertices + 1) (fst r @ [c])"
    using len cs by (simp add: closed_ring_def)
  ultimately show ?thesis by blast
qed

lemma random_polygon_empty:
  assumes "vertices \<le> 0"
  shows "random_polygon L center sz vertices g = Inl IndexError"
  using assms by (simp add: random_polygon_def range_def)

lemma tenement_ring_closed: "closed_ring 5 (tenement_ring center sz)"
  by (simp add: closed_ring_def tenement_ring_def)

lemma tenement_coordinates:
  "\<exists>ring. closed_ring 5 ring \<and> coordinates (fst (tenement L i g)) = Some (JArr [JArr (map coord ring)])"
proof (intro exI conjI)
  show "closed_ring 5 (tenement_ring (fst (random_point L g))
          (fst (uniform L 0.2 0.5 (snd (random_point L g)))))"
    by (rule tenement_ring_closed)
  show "coordinates (fst (tenement L i g)) =
          Some (JArr [JArr (map coord (tenement_ring (fst (random_point L g))
            (fst (uniform L 0.2 0.5 (snd (random_point L g))))))])"
    by (simp add: tenement_def Let_def case_prod_beta coordinates_feature)
qed

lemma geology_unit_ok:
  "\<exists>f g'. geology_unit L i g = Inr (f, g') \<and> geometry_type f = Some (JStr ''Polygon'') \<and> has_properties f"
proof -
  define g3 where "g3 = snd (uniform L 0.15 0.4 (snd (choice L units (snd (random_point L g)))))"
  define c where "c = fst (random_point L g)"
  define sz where "sz = fst (uniform L 0.15 0.4 (snd (choice L units (snd (random_point L g)))))"
  obtain ring g4 where p: "random_polygon L c sz 6 g3 = Inr (ring, g4)"
    using random_polygon_closed [of 6 L c sz g3] by auto
  show ?thesis
    using p
    by (simp add: geology_unit_def Let_def case_prod_beta c_def sz_def g3_def
        geometry_type_feature has_properties_def properties_feature)
qed

lemma drillhole_shape:
  "geometry_type (fst (drillhole L i g)) = Some (JStr ''Point'') \<and> has_properties (fst (drillhole L i g))"
  by (simp add: drillhole_def Let_def case_prod_beta geometry_type_feature has_properties_def
      properties_feature)

lemma track_shape:
  "geometry_type (fst (track L i g)) = Some (JStr ''LineString'') \<and> has_properties (fst (track L i g))"
  by (simp add: track_def Let_def case_prod_beta geometry_type_feature has_properties_def
      properties_feature)

lemma tenement_shape:
  "geometry_type (fst (tenement L i g)) = Some (JStr ''Polygon'') \<and> has_properties (fst (tenement L i g))"
  by (simp add: tenement_def Let_def case_prod_beta geometry_type_feature has_properties_def
      properties_feature)

lemma generate_geology_ok:
  assumes "\<And>i g. \<exists>f g'. geology_unit L i g = Inr (f, g') \<and> P f"
  shows "\<exists>fs g'. generate_geology_geojson L n g = Inr (feature_collection fs, g')
           \<and> list_all P fs \<and> length fs = nat n"
proof -
  obtain fs g' where r: "for_each_err (geology_unit L) (range n) g = Inr (fs, g')"
      "list_all P fs" "length fs = length (range n)"
    using for_each_err_all [of "geology_unit L" P "range n" g] assms by blast
  have "generate_geology_geojson L n g = Inr (feature_collection fs, g')"
    using r(1) by (simp add: generate_geology_geojson_def)
  moreover have "length fs = nat n" using r(3) by (simp add: range_length)
  ultimately show ?thesis using r(2) by blast
qed

text \<open>
  Claim C1. The script synthesizes point, line and polygon features with attributes: every
  feature returned by \<open>generate_drillholes_geojson\<close> has geometry type "Point", every
  feature returned by \<open>generate_tracks_geojson\<close> has geometry type "LineString", every
  feature returned by \<open>generate_geology_geojson\<close> (which returns, it does not raise) and by
  \<open>generate_tenements_geojson\<close> has geometry type "Polygon", and every such feature carries
  a non-empty "properties" object.
\<close>

theorem features_have_geometry_and_properties:
  "(\<forall>f \<in> set (features_of (fst (generate_drillholes_geojson L n g))).
      geometry_type f = Some (JStr ''Point'') \<and> has_properties f)
   \<and> (\<forall>f \<in> set (features_of (fst (generate_tracks_geojson L n g))).
      geometry_type f = Some (JStr ''LineString'') \<and> has_properties f)
   \<and> (\<exists>fc g'. generate_geology_geojson L n g = Inr (fc, g') \<and>
        (\<forall>f \<in> set (features_of fc). geometry_type f = Some (JStr ''Polygon'') \<and> has_properties f))
   \<and> (\<forall>f \<in> set (features_of (fst (generate_tenements_geojson L n g))).
      geometry_type f = Some (JStr ''Polygon'') \<and> has_properties f)"
proof (intro conjI)
  have "list_all (\<lambda>f. geometry_type f = Some (JStr ''Point'') \<and> has_properties f)
          (fst (for_each (drillhole L) (range n) g))"
    by (rule for_each_all) (rule drillhole_shape)
  then show "\<forall>f \<in> set (features_of (fst (generate_drillholes_geojson L n g))).
      geometry_type f = Some (JStr ''Point'') \<and> has_properties f"
    by (simp add: generate_drillholes_geojson_def case_prod_beta features_of_collection list_all_iff)
next
  have "list_all (\<lambda>f. geometry_type f = Some (JStr ''LineString'') \<and> has_properties f)
          (fst (for_each (track L) (range n) g))"
    by (rule for_each_all) (rule track_shape)
  then show "\<forall>f \<in> set (features_of (fst (generate_tracks_geojson L n g))).
      geometry_type f = Some (JStr ''LineString'') \<and> has_properties f"
    by (simp add: generate_tracks_geojson_def case_prod_beta features_of_collection list_all_iff)
next
  obtain fs g' where r: "generate_geology_geojson L n g = Inr (feature_collection fs, g')"
      "list_all (\<lambda>f. geometry_type f = Some (JStr ''Polygon'') \<and> has_properties f) fs"
    using generate_geology_ok [of L "\<lambda>f. geometry_type f = Some (JStr ''Polygon'') \<and> has_properties f" n g]
      geology_unit_ok [of L] by blast
  then show "\<exists>fc g'. generate_geology_geojson L n g = Inr (fc, g') \<and>
        (\<forall>f \<in> set (features_of fc). geometry_type f = Some (JStr ''Polygon'') \<and> has_properties f)"
    by (simp add: features_of_collection list_all_iff)
next
  have "list_all (\<lambda>f. geometry_type f = Some (JStr ''Polygon'') \<and> has_properties f)
          (fst (for_each (tenement L) (range n) g))"
    by (rule for_each_all) (rule tenement_shape)
  then show "\<forall>f \<in> set (features_of (fst (generate_tenements_geojson L n g))).
      geometry_type f = Some (JStr ''Polygon'') \<and> has_properties f"
    by (simp add: generate_tenements_geojson_def case_prod_beta features_of_collection list_all_iff)
qed


theorem features_have_geometry_and_properties_witness:
  "list_all (\<lambda>f. geometry_type f = Some (JStr ''Point'') \<and> has_properties f)
     (features_of (fst (generate_drillholes_geojson lcg_lib 2 1)))
   \<and> list_all (\<lambda>f. geometry_type f = Some (JStr ''LineString'') \<and> has_properties f)
     (features_of (fst (generate_tracks_geojson lcg_lib 2 1)))
   \<and> (\<exists>fc g'. generate_geology_geojson lcg_lib 2 1 = Inr (fc, g') \<and>
        list_all (\<lambda>f. geometry_type f = Some (JStr ''Polygon'') \<and> has_properties f) (features_of fc))
   \<and> list_all (\<lambda>f. geometry_type f = Some (JStr ''Polygon'') \<and> has_properties f)
     (features_of (fst (generate_tenements_geojson lcg_lib 2 1)))"
  using features_have_geometry_and_properties [of lcg_lib 2 1]
  unfolding list_all_iff by simp

text \<open>
  Claim C9, as amended. For \<open>vertices \<ge> 1\<close>, \<open>random_polygon center size vertices\<close> returns
  a list of exactly \<open>vertices + 1\<close> coordinate pairs whose last element equals its first,
  and each tenement ring built in \<open>generate_tenements_geojson\<close> has exactly 5 coordinate
  pairs whose last element equals its first. (The claim as stated has no bound on
  \<open>vertices\<close>: with no vertex the function raises IndexError at \<^verbatim>\<open>coords[0]\<close>, as the
  counterexample after the theorem shows.)
\<close>

theorem polygon_rings_closed:
  "(1 \<le> vertices \<longrightarrow>
      (\<exists>ring g'. random_polygon L center sz vertices g = Inr (ring, g')
         \<and> closed_ring (nat vertices + 1) ring))
   \<and> (\<forall>f \<in> set (features_of (fst (generate_tenements_geojson L n g))).
         \<exists>ring. closed_ring 5 ring \<and> coordinates f = Some (JArr [JArr (map coord ring)]))"
proof (intro conjI impI)
  assume "1 \<le> vertices"
  then show "\<exists>ring g'. random_polygon L center sz vertices g = Inr (ring, g')
         \<and> closed_ring (nat vertices + 1) ring"
    by (rule random_polygon_closed)
next
  have "list_all (\<lambda>f. \<exists>ring. closed_ring 5 ring \<and> coordinates f = Some (JArr [JArr (map coord ring)]))
          (fst (for_each (tenement L) (range n) g))"
    by (rule for_each_all) (rule tenement_coordinates)
  then show "\<forall>f \<in> set (features_of (fst (generate_tenements_geojson L n g))).
         \<exists>ring. closed_ring 5 ring \<and> coordinates f = Some (JArr [JArr (map coord ring)])"
    by (simp add: generate_tenements_geojson_def case_prod_beta features_of_collection list_all_iff)
qed

theorem polygon_rings_closed_witness:
  "(1::int) \<le> 6
   \<and> (\<exists>ring g'. random_polygon lcg_lib (117, - 22) 0.25 6 1 = Inr (ring, g') \<and> closed_ring 7 ring)
   \<and> list_all (\<lambda>f. \<exists>ring. closed_ring 5 ring \<and> coordinates f = Some (JArr [JArr (map coord ring)]))
        (features_of (fst (generate_tenements_geojson lcg_lib 2 1)))"
  using polygon_rings_closed [where vertices = 6 and L = lcg_lib and center = "(117, - 22)"
      and sz = "0.25" and g = 1 and n = 2]
  unfolding list_all_iff by simp

theorem random_polygon_no_vertices_counterexample:
  "random_polygon lcg_lib (117, - 22) 0.25 0 1 = Inl IndexError"
  by (simp add: random_polygon_def range_def)

lemma tenement_properties_ok:
  assumes "choice_ok L"
  shows "\<exists>ps. obj_get (fst (tenement L i g)) ''properties'' = Some (JObj ps) \<and> tenement_properties ps"
proof -
  have st: "fst (choice L [''Active'', ''Active'', ''Active'', ''Pending''] g') \<in> {''Active'', ''Pending''}" for g'
    using choice_in_set [OF assms, of "[''Active'', ''Active'', ''Active'', ''Pending'']" g'] by simp
  have ty: "fst (choice L tenement_types g') \<in> {''Exploration'', ''Mining'', ''Prospecting'', ''Retention''}" for g'
    using choice_in_set [OF assms, of tenement_types g'] by (simp add: tenement_types_def)
  show ?thesis
    using st ty
    by (simp add: tenement_def Let_def case_prod_beta properties_feature tenement_properties_def)
qed

text \<open>
  Claim C5. Every tenement feature produced by \<open>generate_tenements_geojson\<close> is a polygon
  with administrative attributes: its geometry type is "Polygon" and its properties are
  the keys tenement_id, type, holder, area_km2, granted and status, with status drawn from
  Active, Pending and type drawn from Exploration, Mining, Prospecting, Retention. The
  hypothesis is the contract of \<^verbatim>\<open>random.choice\<close>.
\<close>

theorem tenement_features_administrative:
  assumes "choice_ok L"
  shows "\<forall>f \<in> set (features_of (fst (generate_tenements_geojson L n g))).
           geometry_type f = Some (JStr ''Polygon'')
           \<and> (\<exists>ps. obj_get f ''properties'' = Some (JObj ps) \<and> tenement_properties ps)"
proof -
  have "geometry_type (fst (tenement L i g')) = Some (JStr ''Polygon'')
        \<and> (\<exists>ps. obj_get (fst (tenement L i g')) ''properties'' = Some (JObj ps) \<and> tenement_properties ps)"
    for i g'
    using tenement_shape [of L i g'] tenement_properties_ok [OF assms, of i g'] by simp
  then have "list_all (\<lambda>f. geometry_type f = Some (JStr ''Polygon'')
           \<and> (\<exists>ps. obj_get f ''properties'' = Some (JObj ps) \<and> tenement_properties ps))
          (fst (for_each (tenement L) (range n) g))"
    by (rule for_each_all)
  then show ?thesis
    by (simp add: generate_tenements_geojson_def case_prod_beta features_of_collection list_all_iff)
qed

theorem tenement_features_administrative_witness:
  "choice_ok lcg_lib
   \<and> list_all (\<lambda>f. geometry_type f = Some (JStr ''Polygon'')
           \<and> (\<exists>ps. obj_get f ''properties'' = Some (JObj ps) \<and> tenement_properties ps))
        (features_of (fst (generate_tenements_geojson lcg_lib 2 1)))"
  using tenement_features_administrative [OF lcg_choice_ok, of 2 1] lcg_choice_ok
  unfolding list_all_iff by simp

section \<open>One random state for all generators\<close>

lemma lcg_simps:
  "uniform lcg_lib a b s = (a + (b - a) * lcg_unit (lcg_next s), lcg_next s)"
  "gauss lcg_lib mu sigma s = (mu + sigma * (2 * lcg_unit (lcg_next s) - 1), lcg_next s)"
  "randint lcg_lib i j s = (i + \<lfloor>lcg_unit (lcg_next s) * real_of_int (j - i + 1)\<rfloor>, lcg_next s)"
  "choice_index lcg_lib n s = (lcg_index n (lcg_next s), lcg_next s)"
  "round_nd lcg_lib = lcg_round"
  by (simp_all add: lcg_lib_def)

lemma snd_random_point: "snd (random_point lcg_lib s) = lcg_next (lcg_next s)"
  by (simp add: random_point_def lcg_simps case_prod_beta)

lemma snd_choice: "snd (choice lcg_lib xs s) = lcg_next s"
  by (simp add: choice_def lcg_simps case_prod_beta)

lemma snd_assay_row:
  "snd (assay_row lcg_lib i s) =
     lcg_next (lcg_next (lcg_next (lcg_next (lcg_next (lcg_next (lcg_next (lcg_next s)))))))"
  by (simp add: assay_row_def snd_random_point snd_choice lcg_simps Let_def case_prod_beta)

lemma survey_description:
  "map_of (fst (survey_row lcg_lib i s)) ''description'' =
     Some (JStr ([''Control'', ''Boundary'', ''Feature'', ''Grid'']
       ! lcg_index (Suc (Suc (Suc (Suc 0)))) (lcg_next (lcg_next (lcg_next (lcg_next s))))))"
  by (simp add: survey_row_def snd_random_point choice_def lcg_simps Let_def case_prod_beta)

lemma lcg_chain:
  "lcg_next (lcg_next (lcg_next (lcg_next 42))) = 64291"
  "lcg_next (lcg_next (lcg_next (lcg_next 64291))) = 8612"
  "lcg_next (lcg_next (lcg_next (lcg_next 8612))) = 31060"
  "lcg_index (Suc (Suc (Suc (Suc 0)))) 64291 = 3"
  "lcg_index (Suc (Suc (Suc (Suc 0)))) 31060 = 1"
  by (simp_all add: lcg_next_def lcg_index_def)

lemma range_one: "range 1 = [0]"
  by (simp add: range_def)

lemma survey_alone: "map_of (hd (fst (generate_survey_csv lcg_lib 1 42))) ''description'' = Some (JStr ''Grid'')"
  by (simp add: generate_survey_csv_def range_one case_prod_beta survey_description lcg_chain)

lemma assays_state: "snd (generate_assays_csv lcg_lib 1 42) = 8612"
  by (simp add: generate_assays_csv_def range_one case_prod_beta snd_assay_row lcg_chain)

lemma survey_after: "map_of (hd (fst (generate_survey_csv lcg_lib 1 8612))) ''description'' = Some (JStr ''Boundary'')"
  by (simp add: generate_survey_csv_def range_one case_prod_beta survey_description lcg_chain)

theorem generators_not_independent_counterexample:
  "fst (generate_survey_csv lcg_lib 1 (snd (generate_assays_csv lcg_lib 1 42)))
     \<noteq> fst (generate_survey_csv lcg_lib 1 42)"
proof
  assume "fst (generate_survey_csv lcg_lib 1 (snd (generate_assays_csv lcg_lib 1 42)))
            = fst (generate_survey_csv lcg_lib 1 42)"
  then have "map_of (hd (fst (generate_survey_csv lcg_lib 1 8612))) ''description''
               = map_of (hd (fst (generate_survey_csv lcg_lib 1 42))) ''description''"
    by (simp add: assays_state)
  then show False by (simp add: survey_alone survey_after)
qed


lemma map_const:
  "list_all (\<lambda>x. h x = c) xs \<Longrightarrow> map h xs = replicate (length xs) c"
  by (induction xs) simp_all

lemma for_each_schema:
  assumes "\<And>i g. h (fst (body i g)) = c"
  shows "map h (fst (for_each body ns g)) = replicate (length ns) c"
proof -
  have "list_all (\<lambda>x. h x = c) (fst (for_each body ns g))"
    by (rule for_each_all) (rule assms)
  then show ?thesis using map_const [of h c "fst (for_each body ns g)"] by (simp add: for_each_length)
qed

lemma feature_schema_feature: "feature_schema (feature t c ps) = (Some (JStr t), map fst ps)"
  by (simp add: feature_schema_def geometry_type_feature properties_feature)

lemma drillhole_schema:
  "feature_schema (fst (drillhole L i g)) =
     (Some (JStr ''Point''),
      [''hole_id'', ''depth_m'', ''fe_pct'', ''sio2_pct'', ''al2o3_pct'', ''loi_pct'', ''rock_type'', ''year''])"
  by (simp add: drillhole_def Let_def case_prod_beta feature_schema_feature)

lemma tenement_schema:
  "feature_schema (fst (tenement L i g)) =
     (Some (JStr ''Polygon''),
      [''tenement_id'', ''type'', ''holder'', ''area_km2'', ''granted'', ''status''])"
  by (simp add: tenement_def Let_def case_prod_beta feature_schema_feature)

lemma track_schema:
  "feature_schema (fst (track L i g)) =
     (Some (JStr ''LineString''), [''track_id'', ''name'', ''surface'', ''width_m''])"
  by (simp add: track_def Let_def case_prod_beta feature_schema_feature)

lemma geology_unit_schema:
  "\<exists>f g'. geology_unit L i g = Inr (f, g') \<and>
     feature_schema f =
       (Some (JStr ''Polygon''), [''unit_id'', ''code'', ''name'', ''age_ma'', ''color'', ''confidence''])"
proof -
  define g3 where "g3 = snd (uniform L 0.15 0.4 (snd (choice L units (snd (random_point L g)))))"
  define c where "c = fst (random_point L g)"
  define sz where "sz = fst (uniform L 0.15 0.4 (snd (choice L units (snd (random_point L g)))))"
  obtain ring g4 where p: "random_polygon L c sz 6 g3 = Inr (ring, g4)"
    using random_polygon_closed [of 6 L c sz g3] by auto
  show ?thesis
    using p
    by (simp add: geology_unit_def Let_def case_prod_beta c_def sz_def g3_def feature_schema_feature)
qed

lemma assay_row_keys:
  "map fst (fst (assay_row L i g)) =
     [''sample_id'', ''longitude'', ''latitude'', ''easting'', ''northing'', ''fe_pct'', ''sio2_pct'',
      ''al2o3_pct'', ''p_pct'', ''s_pct'', ''sample_type'']"
  by (simp add: assay_row_def Let_def case_prod_beta)

lemma survey_row_keys:
  "map fst (fst (survey_row L i g)) = [''point_id'', ''x'', ''y'', ''elevation_m'', ''description'']"
  by (simp add: survey_row_def Let_def case_prod_beta)

lemma geology_schema:
  "\<exists>fc g'. generate_geology_geojson L n g = Inr (fc, g') \<and>
     map feature_schema (features_of fc) =
       replicate (nat n)
         (Some (JStr ''Polygon''), [''unit_id'', ''code'', ''name'', ''age_ma'', ''color'', ''confidence''])"
proof -
  let ?c = "(Some (JStr ''Polygon''), [''unit_id'', ''code'', ''name'', ''age_ma'', ''color'', ''confidence''])"
  obtain fs g' where r: "generate_geology_geojson L n g = Inr (feature_collection fs, g')"
      "list_all (\<lambda>f. feature_schema f = ?c) fs" "length fs = nat n"
    using generate_geology_ok [of L "\<lambda>f. feature_schema f = ?c" n g] geology_unit_schema [of L]
    by blast
  have "map feature_schema (features_of (feature_collection fs)) = replicate (nat n) ?c"
    using map_const [OF r(2)] r(3) by (simp add: features_of_collection)
  with r(1) show ?thesis by blast
qed

text \<open>
  Claim C3, as amended. The generators share one pseudo-random state, so what a generator
  returns depends on the state the generator before it left. What does not depend on it:
  for every pair of generators and all states \<open>g\<close> (the starting state) and \<open>g'\<close> (the
  state another generator left), the second generator returns from \<open>g'\<close> as many records
  as from \<open>g\<close>, each with the same geometry type and the same field names. The values
  of the fields need not coincide, as the counterexample before the theorem shows: on the
  test generator, the survey rows drawn after the assay rows differ from the survey rows
  drawn alone from the same starting state.
\<close>

theorem generators_share_random_state:
  "map feature_schema (features_of (fst (generate_drillholes_geojson L n g)))
     = map feature_schema (features_of (fst (generate_drillholes_geojson L n g')))
   \<and> (\<exists>fc g1 fc' g1'.
         generate_geology_geojson L n g = Inr (fc, g1) \<and> generate_geology_geojson L n g' = Inr (fc', g1')
         \<and> map feature_schema (features_of fc) = map feature_schema (features_of fc'))
   \<and> map feature_schema (features_of (fst (generate_tenements_geojson L n g)))
     = map feature_schema (features_of (fst (generate_tenements_geojson L n g')))
   \<and> map feature_schema (features_of (fst (generate_tracks_geojson L n g)))
     = map feature_schema (features_of (fst (generate_tracks_geojson L n g')))
   \<and> map (map fst) (fst (generate_assays_csv L n g)) = map (map fst) (fst (generate_assays_csv L n g'))
   \<and> map (map fst) (fst (generate_survey_csv L n g)) = map (map fst) (fst (generate_survey_csv L n g'))"
proof (intro conjI)
  show "map feature_schema (features_of (fst (generate_drillholes_geojson L n g)))
     = map feature_schema (features_of (fst (generate_drillholes_geojson L n g')))"
    by (simp add: generate_drillholes_geojson_def case_prod_beta features_of_collection
        for_each_schema [where h = feature_schema, OF drillhole_schema])
  show "map feature_schema (features_of (fst (generate_tenements_geojson L n g)))
     = map feature_schema (features_of (fst (generate_tenements_geojson L n g')))"
    by (simp add: generate_tenements_geojson_def case_prod_beta features_of_collection
        for_each_schema [where h = feature_schema, OF tenement_schema])
  show "map feature_schema (features_of (fst (generate_tracks_geojson L n g)))
     = map feature_schema (features_of (fst (generate_tracks_geojson L n g')))"
    by (simp add: generate_tracks_geojson_def case_prod_beta features_of_collection
        for_each_schema [where h = feature_schema, OF track_schema])
  show "map (map fst) (fst (generate_assays_csv L n g)) = map (map fst) (fst (generate_assays_csv L n g'))"
    by (simp add: generate_assays_csv_def for_each_schema [where h = "map fst", OF assay_row_keys])
  show "map (map fst) (fst (generate_survey_csv L n g)) = map (map fst) (fst (generate_survey_csv L n g'))"
    by (simp add: generate_survey_csv_def for_each_schema [where h = "map fst", OF survey_row_keys])
  show "\<exists>fc g1 fc' g1'.
         generate_geology_geojson L n g = Inr (fc, g1) \<and> generate_geology_geojson L n g' = Inr (fc', g1')
         \<and> map feature_schema (features_of fc) = map feature_schema (features_of fc')"
    using geology_schema [of L n g] geology_schema [of L n g'] by (elim exE conjE) (intro exI conjI, assumption, assumption, simp)
qed

section \<open>Shapefiles that are not written\<close>

lemma generate_shapefile_no_module:
  assumes "\<not> has_shapefile L"
  shows "\<exists>w'. generate_shapefile L data name w = Inr (False, w') \<and> files w' = files w \<and> rng w' = rng w"
  using assms by (simp add: generate_shapefile_def print_def)

lemma generate_shapefile_empty:
  assumes "getitem data ''features'' = Inr (JArr [])"
  shows "\<exists>w'. generate_shapefile L data name w = Inr (False, w') \<and> files w' = files w \<and> rng w' = rng w"
  using assms by (simp add: generate_shapefile_def print_def truthy_def)

lemma generate_shapefile_other_geometry:
  assumes "getitem data ''features'' = Inr (JArr (f0 # fs))"
    and "getitem f0 ''geometry'' = Inr geom"
    and "getitem geom ''type'' = Inr t"
    and "t \<noteq> JStr ''Point''" and "t \<noteq> JStr ''LineString''" and "t \<noteq> JStr ''Polygon''"
  shows "\<exists>w'. generate_shapefile L data name w = Inr (False, w') \<and> files w' = files w \<and> rng w' = rng w"
  using assms by (simp add: generate_shapefile_def print_def truthy_def first_item_def)

text \<open>
  Claim C10. \<open>generate_shapefile\<close> returns False and writes nothing when its input has an
  empty "features" array, or when the first feature's geometry type is not one of "Point",
  "LineString" or "Polygon", whether or not the shapefile module can be imported.
\<close>

theorem generate_shapefile_rejects:
  "(getitem data ''features'' = Inr (JArr [])
      \<longrightarrow> (\<exists>w'. generate_shapefile L data name w = Inr (False, w') \<and> files w' = files w))
   \<and> (getitem data ''features'' = Inr (JArr (f0 # fs)) \<and> getitem f0 ''geometry'' = Inr geom
        \<and> getitem geom ''type'' = Inr t
        \<and> t \<noteq> JStr ''Point'' \<and> t \<noteq> JStr ''LineString'' \<and> t \<noteq> JStr ''Polygon''
      \<longrightarrow> (\<exists>w'. generate_shapefile L data name w = Inr (False, w') \<and> files w' = files w))"
  using generate_shapefile_empty [of data L name w]
    generate_shapefile_other_geometry [of data f0 fs geom t L name w]
  by blast

theorem generate_shapefile_rejects_witness:
  "getitem (feature_collection []) ''features'' = Inr (JArr [])
   \<and> has_shapefile pyshp_lib
   \<and> generate_shapefile pyshp_lib (feature_collection []) ''empty'' world0 = Inr (False, world0)
   \<and> getitem (feature_collection [feature ''MultiPoint'' (JArr []) []]) ''features''
       = Inr (JArr [feature ''MultiPoint'' (JArr []) []])
   \<and> getitem (feature ''MultiPoint'' (JArr []) []) ''geometry''
       = Inr (JObj [(''type'', JStr ''MultiPoint''), (''coordinates'', JArr [])])
   \<and> getitem (JObj [(''type'', JStr ''MultiPoint''), (''coordinates'', JArr [])]) ''type'' = Inr (JStr ''MultiPoint'')
   \<and> (\<exists>w'. generate_shapefile pyshp_lib (feature_collection [feature ''MultiPoint'' (JArr []) []]) ''other'' world0
          = Inr (False, w') \<and> files w' = files world0)"
  using generate_shapefile_rejects [where data = "feature_collection [feature ''MultiPoint'' (JArr []) []]"
      and ?f0.0 = "feature ''MultiPoint'' (JArr []) []" and fs = "[]"
      and geom = "JObj [(''type'', JStr ''MultiPoint''), (''coordinates'', JArr [])]"
      and t = "JStr ''MultiPoint''" and L = pyshp_lib and name = "''other''" and w = world0]
  by (simp add: getitem_def feature_collection_def feature_def pyshp_lib_def generate_shapefile_def
      truthy_def)

section \<open>What main writes\<close>

lemma print_simps [simp]:
  "rng (print l w) = rng w" "files (print l w) = files w" "out (print l w) = out w @ [l]"
  by (simp_all add: print_def)

lemma write_file_simps [simp]:
  "rng (write_file n c w) = rng w" "files (write_file n c w) = files w @ [(n, c)]"
  "out (write_file n c w) = out w"
  by (simp_all add: write_file_def)

lemma is_feature_feature: "is_feature (feature t c ps)"
  by (simp add: is_feature_def feature_def obj_get_def)

lemma is_feature_collection_iff:
  "is_feature_collection (feature_collection fs) = list_all is_feature fs"
  by (simp add: is_feature_collection_def feature_collection_def obj_get_def)

lemma drillhole_is_feature: "is_feature (fst (drillhole L i g))"
  by (simp add: drillhole_def Let_def case_prod_beta is_feature_feature)

lemma tenement_is_feature: "is_feature (fst (tenement L i g))"
  by (simp add: tenement_def Let_def case_prod_beta is_feature_feature)

lemma track_is_feature: "is_feature (fst (track L i g))"
  by (simp add: track_def Let_def case_prod_beta is_feature_feature)

lemma geology_unit_is_feature: "\<exists>f g'. geology_unit L i g = Inr (f, g') \<and> is_feature f"
proof -
  define g3 where "g3 = snd (uniform L 0.15 0.4 (snd (choice L units (snd (random_point L g)))))"
  define c where "c = fst (random_point L g)"
  define sz where "sz = fst (uniform L 0.15 0.4 (snd (choice L units (snd (random_point L g)))))"
  obtain ring g4 where p: "random_polygon L c sz 6 g3 = Inr (ring, g4)"
    using random_polygon_closed [of 6 L c sz g3] by auto
  show ?thesis
    using p
    by (simp add: geology_unit_def Let_def case_prod_beta c_def sz_def g3_def is_feature_feature)
qed

lemma drillholes_collection:
  "\<exists>fs. fst (generate_drillholes_geojson L n g) = feature_collection fs \<and> list_all is_feature fs
     \<and> length fs = nat n"
proof (intro exI conjI)
  show "fst (generate_drillholes_geojson L n g) = feature_collection (fst (for_each (drillhole L) (range n) g))"
    by (simp add: generate_drillholes_geojson_def case_prod_beta)
  show "list_all is_feature (fst (for_each (drillhole L) (range n) g))"
    by (rule for_each_all) (rule drillhole_is_feature)
  show "length (fst (for_each (drillhole L) (range n) g)) = nat n"
    by (simp add: for_each_length range_length)
qed

lemma tenements_collection:
  "\<exists>fs. fst (generate_tenements_geojson L n g) = feature_collection fs \<and> list_all is_feature fs
     \<and> length fs = nat n"
proof (intro exI conjI)
  show "fst (generate_tenements_geojson L n g) = feature_collection (fst (for_each (tenement L) (range n) g))"
    by (simp add: generate_tenements_geojson_def case_prod_beta)
  show "list_all is_feature (fst (for_each (tenement L) (range n) g))"
    by (rule for_each_all) (rule tenement_is_feature)
  show "length (fst (for_each (tenement L) (range n) g)) = nat n"
    by (simp add: for_each_length range_length)
qed

lemma tracks_collection:
  "\<exists>fs. fst (generate_tracks_geojson L n g) = feature_collection fs \<and> list_all is_feature fs
     \<and> length fs = nat n"
proof (intro exI conjI)
  show "fst (generate_tracks_geojson L n g) = feature_collection (fst (for_each (track L) (range n) g))"
    by (simp add: generate_tracks_geojson_def case_prod_beta)
  show "list_all is_feature (fst (for_each (track L) (range n) g))"
    by (rule for_each_all) (rule track_is_feature)
  show "length (fst (for_each (track L) (range n) g)) = nat n"
    by (simp add: for_each_length range_length)
qed

lemma geology_collection:
  "\<exists>fs g'. generate_geology_geojson L n g = Inr (feature_collection fs, g') \<and> list_all is_feature fs
     \<and> length fs = nat n"
  by (rule generate_geology_ok) (rule geology_unit_is_feature)

lemma getitem_obj_get: "obj_get v k = Some x \<Longrightarrow> getitem v k = Inr x"
  by (cases v) (simp_all add: obj_get_def getitem_def)

lemma shp_row_ok:
  assumes "is_feature f"
  shows "\<exists>r. shp_row gt keys f = Inr r"
proof -
  obtain geom where g: "obj_get f ''geometry'' = Some (JObj geom)"
      and c: "map_of geom ''coordinates'' \<noteq> None"
    using assms by (auto simp: is_feature_def split: option.splits json.splits)
  obtain ps where p: "obj_get f ''properties'' = Some (JObj ps)"
    using assms by (auto simp: is_feature_def split: option.splits json.splits)
  obtain cs where cs: "map_of geom ''coordinates'' = Some cs" using c by blast
  show ?thesis
    using getitem_obj_get [OF g] getitem_obj_get [OF p] cs
    by (simp add: shp_row_def getitem_def dict_items_def)
qed

lemma shp_rows_ok:
  assumes "list_all is_feature fs"
  shows "\<exists>rs. shp_rows gt keys fs = Inr rs \<and> length rs = length fs"
  using assms
proof (induction fs)
  case Nil
  show ?case by simp
next
  case (Cons f fs)
  have "is_feature f" using Cons.prems by simp
  then obtain r where r: "shp_row gt keys f = Inr r" using shp_row_ok [of f gt keys] by blast
  obtain rs where rs: "shp_rows gt keys fs = Inr rs" "length rs = length fs"
    using Cons by auto
  show ?case using r rs by simp
qed

lemma shapefile_writes_names:
  assumes "name \<in> {''drillholes'', ''geology'', ''tenements'', ''tracks''}"
  shows "list_all (\<lambda>nc. shapefile_name (fst nc)) (shapefile_writes name gt props rows)"
  using assms by (auto simp: shapefile_writes_def shapefile_name_def)

lemma generate_shapefile_ok:
  assumes fc: "list_all is_feature fs"
    and name: "name \<in> {''drillholes'', ''geology'', ''tenements'', ''tracks''}"
  shows "\<exists>ok w' ws. generate_shapefile L (feature_collection fs) name w = Inr (ok, w')
           \<and> rng w' = rng w \<and> files w' = files w @ ws
           \<and> list_all (\<lambda>nc. shapefile_name (fst nc)) ws"
proof (cases "has_shapefile L")
  case False
  then have "generate_shapefile L (feature_collection fs) name w
               = Inr (False, print (''  Skipping '' @ name @ ''.shp (pip install pyshp)'') w)"
    by (simp add: generate_shapefile_def)
  moreover have "rng (print (''  Skipping '' @ name @ ''.shp (pip install pyshp)'') w) = rng w"
    by (simp add: print_def)
  moreover have "files (print (''  Skipping '' @ name @ ''.shp (pip install pyshp)'') w) = files w @ []"
    by (simp add: print_def)
  moreover have "list_all (\<lambda>nc. shapefile_name (fst nc)) ([] :: (string \<times> content) list)"
    by simp
  ultimately show ?thesis by blast
next
  case True
  have gi: "getitem (feature_collection fs) ''features'' = Inr (JArr fs)"
    by (simp add: getitem_def feature_collection_def)
  show ?thesis
  proof (cases fs)
    case Nil
    then have "generate_shapefile L (feature_collection fs) name w = Inr (False, w)"
      using True gi by (simp add: generate_shapefile_def truthy_def)
    moreover have "files w = files w @ []" by simp
    moreover have "list_all (\<lambda>nc. shapefile_name (fst nc)) ([] :: (string \<times> content) list)"
      by simp
    ultimately show ?thesis by blast
  next
    case (Cons f0 rest)
    then have f0: "is_feature f0" using fc by simp
    obtain geom where g: "obj_get f0 ''geometry'' = Some (JObj geom)"
        and ty: "map_of geom ''type'' \<noteq> None"
      using f0 by (auto simp: is_feature_def split: option.splits json.splits)
    obtain ps where p: "obj_get f0 ''properties'' = Some (JObj ps)"
      using f0 by (auto simp: is_feature_def split: option.splits json.splits)
    obtain t where t: "map_of geom ''type'' = Some t" using ty by blast
    have gt: "getitem (JObj geom) ''type'' = Inr t" using t by (simp add: getitem_def)
    show ?thesis
    proof (cases "t \<noteq> JStr ''Point'' \<and> t \<noteq> JStr ''LineString'' \<and> t \<noteq> JStr ''Polygon''")
      case True
      then have "generate_shapefile L (feature_collection fs) name w = Inr (False, w)"
        using \<open>has_shapefile L\<close> gi Cons getitem_obj_get [OF g] gt
        by (simp add: generate_shapefile_def truthy_def first_item_def)
      moreover have "files w = files w @ []" by simp
      moreover have "list_all (\<lambda>nc. shapefile_name (fst nc)) ([] :: (string \<times> content) list)"
        by simp
      ultimately show ?thesis by blast
    next
      case False
      then obtain s where s: "t = JStr s" by auto
      obtain rows where rows: "shp_rows s (map fst ps) fs = Inr rows"
        using shp_rows_ok [OF fc] by blast
      have "generate_shapefile L (feature_collection fs) name w
              = Inr (True, w\<lparr>files := files w @ shapefile_writes name s ps rows\<rparr>)"
        using \<open>has_shapefile L\<close> gi Cons getitem_obj_get [OF g] getitem_obj_get [OF p] gt False s rows
        by (simp add: generate_shapefile_def truthy_def first_item_def dict_items_def items_of_def)
      moreover have "rng (w\<lparr>files := files w @ shapefile_writes name s ps rows\<rparr>) = rng w" by simp
      moreover have "files (w\<lparr>files := files w @ shapefile_writes name s ps rows\<rparr>)
                       = files w @ shapefile_writes name s ps rows" by simp
      ultimately show ?thesis using shapefile_writes_names [OF name, of s ps rows] by blast
    qed
  qed
qed

lemma shapefile_all_ok:
  assumes "list_all dataset_ok ds"
  shows "\<exists>w' ws. shapefile_all L ds w = Inr w' \<and> rng w' = rng w \<and> files w' = files w @ ws
           \<and> list_all (\<lambda>nc. shapefile_name (fst nc)) ws"
  using assms
proof (induction ds arbitrary: w)
  case Nil
  have "shapefile_all L [] w = Inr w \<and> rng w = rng w \<and> files w = files w @ []
          \<and> list_all (\<lambda>nc. shapefile_name (fst nc)) ([] :: (string \<times> content) list)"
    by simp
  then show ?case by blast
next
  case (Cons nd ds)
  obtain fs where fs: "snd nd = feature_collection fs" "list_all is_feature fs"
      and nm: "fst nd \<in> {''drillholes'', ''geology'', ''tenements'', ''tracks''}"
    using Cons.prems by (auto simp: dataset_ok_def)
  obtain ok w1 ws1 where s1: "generate_shapefile L (snd nd) (fst nd) w = Inr (ok, w1)"
      "rng w1 = rng w" "files w1 = files w @ ws1" "list_all (\<lambda>nc. shapefile_name (fst nc)) ws1"
    using generate_shapefile_ok [OF fs(2) nm, of L w] fs(1) by auto
  define w2 where "w2 = (if ok then print (''  '' @ fst nd @ ''.shp'') w1 else w1)"
  have w2: "rng w2 = rng w" "files w2 = files w @ ws1"
    using s1 by (simp_all add: w2_def)
  obtain w' ws where r: "shapefile_all L ds w2 = Inr w'" "rng w' = rng w2" "files w' = files w2 @ ws"
      "list_all (\<lambda>nc. shapefile_name (fst nc)) ws"
    using Cons.IH [of w2] Cons.prems by auto
  have "shapefile_all L (nd # ds) w = Inr w'"
    using s1(1) r(1) by (simp add: w2_def)
  moreover have "rng w' = rng w" using r(2) w2 by simp
  moreover have "files w' = files w @ (ws1 @ ws)" using r(3) w2 by simp
  moreover have "list_all (\<lambda>nc. shapefile_name (fst nc)) (ws1 @ ws)" using s1(4) r(4) by simp
  ultimately show ?case by blast
qed

lemma dump_geojson_ok:
  "dump_geojson L (name, feature_collection fs) w =
     Inr (print (''  '' @ name @ ''.geojson ('' @ str_int (int (length fs)) @ '' features)'')
            (write_file (name @ ''.geojson'') (Text (json_dumps L (feature_collection fs) 2)) w))"
  by (simp add: dump_geojson_def getitem_def feature_collection_def py_len_def)

lemma dump_all_ok:
  assumes "list_all dataset_ok ds"
  shows "\<exists>w'. dump_all L ds w = Inr w' \<and> rng w' = rng w
           \<and> files w' = files w @ map (\<lambda>nd. (fst nd @ ''.geojson'', Text (json_dumps L (snd nd) 2))) ds"
  using assms
proof (induction ds arbitrary: w)
  case Nil
  show ?case by simp
next
  case (Cons nd ds)
  obtain fs where fs: "snd nd = feature_collection fs"
    using Cons.prems by (auto simp: dataset_ok_def)
  define w1 where "w1 = print (''  '' @ fst nd @ ''.geojson ('' @ str_int (int (length fs)) @ '' features)'')
            (write_file (fst nd @ ''.geojson'') (Text (json_dumps L (snd nd) 2)) w)"
  have d: "dump_geojson L nd w = Inr w1"
    using dump_geojson_ok [of L "fst nd" fs w] fs by (cases nd) (simp add: w1_def)
  have w1: "rng w1 = rng w" "files w1 = files w @ [(fst nd @ ''.geojson'', Text (json_dumps L (snd nd) 2))]"
    by (simp_all add: w1_def)
  obtain w' where r: "dump_all L ds w1 = Inr w'" "rng w' = rng w1"
      "files w' = files w1 @ map (\<lambda>nd. (fst nd @ ''.geojson'', Text (json_dumps L (snd nd) 2))) ds"
    using Cons.IH [of w1] Cons.prems by auto
  show ?case using d r w1 by simp
qed

lemma csv_rows_ok:
  assumes "list_all (\<lambda>row. map fst row = keys) rows"
  shows "\<exists>ls. csv_rows L keys rows = Inr ls \<and> length ls = length rows"
  using assms
proof (induction rows)
  case Nil
  show ?case by simp
next
  case (Cons row rows)
  have "csv_row L keys row =
          Inr (csv_line (map (\<lambda>k. case map_of row k of Some v \<Rightarrow> csv_cell L v | None \<Rightarrow> []) keys))"
    using Cons.prems by (auto simp: csv_row_def)
  moreover obtain ls where "csv_rows L keys rows = Inr ls" "length ls = length rows"
    using Cons by auto
  ultimately show ?case by simp
qed

lemma write_csv_ok:
  assumes "rows \<noteq> []" and "list_all (\<lambda>row. map fst row = keys) rows"
  shows "\<exists>ls w'. csv_rows L keys rows = Inr ls \<and> length ls = length rows
           \<and> write_csv L name rows w = Inr w' \<and> rng w' = rng w
           \<and> files w' = files w @ [(name, Lines (csv_line (map csv_field keys) # ls))]"
proof -
  obtain r0 rest where rows: "rows = r0 # rest" using assms(1) by (cases rows) auto
  then have k: "map fst r0 = keys" using assms(2) by simp
  obtain ls where ls: "csv_rows L keys rows = Inr ls" "length ls = length rows"
    using csv_rows_ok [OF assms(2)] by blast
  define w' where "w' = print (''  '' @ name @ '' ('' @ str_int (int (length rows)) @ '' rows)'')
                         (write_file name (Lines (csv_line (map csv_field keys) # ls)) w)"
  have "write_csv L name rows w = Inr w'"
    using ls(1) k rows by (simp add: write_csv_def w'_def)
  moreover have "rng w' = rng w" "files w' = files w @ [(name, Lines (csv_line (map csv_field keys) # ls))]"
    by (simp_all add: w'_def)
  ultimately show ?thesis using ls by blast
qed

lemma generate_geotiff_files:
  "\<exists>ws. files (snd (generate_geotiff L w)) = files w @ ws
     \<and> set (map fst ws) \<subseteq> {''elevation.tif'', ''satellite_rgb.tif''}
     \<and> rng (snd (generate_geotiff L w)) = rng w"
proof (cases "has_numpy L \<and> has_rasterio L")
  case True
  then have "files (snd (generate_geotiff L w)) =
      files w @ [(''elevation.tif'', Raster 256 256 1), (''satellite_rgb.tif'', Raster 256 256 3)]"
    "rng (snd (generate_geotiff L w)) = rng w"
    by (simp_all add: generate_geotiff_def)
  then show ?thesis by force
next
  case False
  then have "files (snd (generate_geotiff L w)) = files w @ []" "rng (snd (generate_geotiff L w)) = rng w"
    by (simp_all add: generate_geotiff_def)
  then show ?thesis by force
qed

lemma zip_drillholes_files:
  assumes "''drillholes.geojson'' \<in> set (map fst (files w))"
  shows "\<exists>z. files (zip_drillholes w) = files w @ [(''drillholes_shp.zip'', Zip z)]
           \<and> rng (zip_drillholes w) = rng w"
proof -
  have "''drillholes.geojson'' \<in> set (glob_prefix ''drillholes.'' (files w))"
    using assms by (simp add: glob_prefix_def)
  then have "glob_prefix ''drillholes.'' (files w) \<noteq> []" by auto
  then show ?thesis by (simp add: zip_drillholes_def Let_def)
qed

lemma assays_rows:
  "length (fst (generate_assays_csv L n g)) = nat n
   \<and> list_all (\<lambda>row. map fst row = assay_fields) (fst (generate_assays_csv L n g))"
proof
  show "length (fst (generate_assays_csv L n g)) = nat n"
    by (simp add: generate_assays_csv_def for_each_length range_length)
  show "list_all (\<lambda>row. map fst row = assay_fields) (fst (generate_assays_csv L n g))"
    unfolding generate_assays_csv_def assay_fields_def
    by (rule for_each_all) (rule assay_row_keys)
qed

lemma survey_rows:
  "length (fst (generate_survey_csv L n g)) = nat n
   \<and> list_all (\<lambda>row. map fst row = survey_fields) (fst (generate_survey_csv L n g))"
proof
  show "length (fst (generate_survey_csv L n g)) = nat n"
    by (simp add: generate_survey_csv_def for_each_length range_length)
  show "list_all (\<lambda>row. map fst row = survey_fields) (fst (generate_survey_csv L n g))"
    unfolding generate_survey_csv_def survey_fields_def
    by (rule for_each_all) (rule survey_row_keys)
qed

lemma main_trace:
  "\<exists>fd g1 fg g2 ft g3 fk g4 assays g5 survey g6 la ls shp tif z w' wa wb.
     generate_drillholes_geojson L 50 (rng w) = (feature_collection fd, g1)
     \<and> list_all is_feature fd \<and> length fd = 50
     \<and> generate_geology_geojson L 15 g1 = Inr (feature_collection fg, g2)
     \<and> list_all is_feature fg \<and> length fg = 15
     \<and> generate_tenements_geojson L 8 g2 = (feature_collection ft, g3)
     \<and> list_all is_feature ft \<and> length ft = 8
     \<and> generate_tracks_geojson L 5 g3 = (feature_collection fk, g4)
     \<and> list_all is_feature fk \<and> length fk = 5
     \<and> generate_assays_csv L 100 g4 = (assays, g5)
     \<and> length assays = 100 \<and> list_all (\<lambda>row. map fst row = assay_fields) assays
     \<and> generate_survey_csv L 200 g5 = (survey, g6)
     \<and> length survey = 200 \<and> list_all (\<lambda>row. map fst row = survey_fields) survey
     \<and> csv_rows L assay_fields assays = Inr la \<and> length la = 100
     \<and> csv_rows L survey_fields survey = Inr ls \<and> length ls = 200
     \<and> main L w = Inr w' \<and> rng w' = g6
     \<and> files w' = files w
          @ [(''drillholes.geojson'', Text (json_dumps L (feature_collection fd) 2)),
             (''geology.geojson'', Text (json_dumps L (feature_collection fg) 2)),
             (''tenements.geojson'', Text (json_dumps L (feature_collection ft) 2)),
             (''tracks.geojson'', Text (json_dumps L (feature_collection fk) 2)),
             (''assays.csv'', Lines (csv_line (map csv_field assay_fields) # la)),
             (''survey_points.csv'', Lines (csv_line (map csv_field survey_fields) # ls))]
          @ shp @ tif @ [(''drillholes_shp.zip'', Zip z)]
     \<and> list_all (\<lambda>nc. shapefile_name (fst nc)) shp
     \<and> set (map fst tif) \<subseteq> {''elevation.tif'', ''satellite_rgb.tif''}
     \<and> shapefile_all L [(''drillholes'', feature_collection fd), (''geology'', feature_collection fg),
           (''tenements'', feature_collection ft), (''tracks'', feature_collection fk)] wa = Inr wb
     \<and> files wb = files wa @ shp"
proof -
  let ?w2 = "print ([CHR 0x0A] @ ''GeoJSON files:'')
     (print (''Output directory: '' @ output_dir L) (print ''Generating Spinifex test data...'' w))"
  obtain fd where d: "fst (generate_drillholes_geojson L 50 (rng w)) = feature_collection fd"
      "list_all is_feature fd" "length fd = 50"
    using drillholes_collection [of L 50 "rng w"] by auto
  let ?g1 = "snd (generate_drillholes_geojson L 50 (rng w))"
  obtain fg g2 where ge: "generate_geology_geojson L 15 ?g1 = Inr (feature_collection fg, g2)"
      "list_all is_feature fg" "length fg = 15"
    using geology_collection [of L 15 ?g1] by auto
  obtain ft where t: "fst (generate_tenements_geojson L 8 g2) = feature_collection ft"
      "list_all is_feature ft" "length ft = 8"
    using tenements_collection [of L 8 g2] by auto
  let ?g3 = "snd (generate_tenements_geojson L 8 g2)"
  obtain fk where k: "fst (generate_tracks_geojson L 5 ?g3) = feature_collection fk"
      "list_all is_feature fk" "length fk = 5"
    using tracks_collection [of L 5 ?g3] by auto
  let ?g4 = "snd (generate_tracks_geojson L 5 ?g3)"
  let ?datasets = "[(''drillholes'', feature_collection fd),
      (''geology'', feature_collection fg), (''tenements'', feature_collection ft),
      (''tracks'', feature_collection fk)]"
  have ds: "list_all dataset_ok ?datasets"
    using d(2) ge(2) t(2) k(2) by (auto simp: dataset_ok_def)
  obtain w3 where w3: "dump_all L ?datasets (?w2\<lparr>rng := ?g4\<rparr>) = Inr w3" "rng w3 = ?g4"
      "files w3 = files w @ map (\<lambda>nd. (fst nd @ ''.geojson'', Text (json_dumps L (snd nd) 2))) ?datasets"
    using dump_all_ok [OF ds, of L "?w2\<lparr>rng := ?g4\<rparr>"] by auto
  let ?w4 = "print ([CHR 0x0A] @ ''CSV files:'') w3"
  let ?assays = "fst (generate_assays_csv L 100 ?g4)"
  let ?g5 = "snd (generate_assays_csv L 100 ?g4)"
  have a: "length ?assays = 100" "list_all (\<lambda>row. map fst row = assay_fields) ?assays"
    using assays_rows [of L 100 ?g4] by simp_all
  then have "?assays \<noteq> []" by auto
  then obtain la w5 where w5: "csv_rows L assay_fields ?assays = Inr la" "length la = length ?assays"
      "write_csv L ''assays.csv'' ?assays (?w4\<lparr>rng := ?g5\<rparr>) = Inr w5" "rng w5 = ?g5"
      "files w5 = files w3 @ [(''assays.csv'', Lines (csv_line (map csv_field assay_fields) # la))]"
    using write_csv_ok [OF _ a(2), of L "''assays.csv''" "?w4\<lparr>rng := ?g5\<rparr>"] by auto
  let ?survey = "fst (generate_survey_csv L 200 ?g5)"
  let ?g6 = "snd (generate_survey_csv L 200 ?g5)"
  have s: "length ?survey = 200" "list_all (\<lambda>row. map fst row = survey_fields) ?survey"
    using survey_rows [of L 200 ?g5] by simp_all
  then have "?survey \<noteq> []" by auto
  then obtain ls w6 where w6: "csv_rows L survey_fields ?survey = Inr ls" "length ls = length ?survey"
      "write_csv L ''survey_points.csv'' ?survey (w5\<lparr>rng := ?g6\<rparr>) = Inr w6" "rng w6 = ?g6"
      "files w6 = files w5 @ [(''survey_points.csv'', Lines (csv_line (map csv_field survey_fields) # ls))]"
    using write_csv_ok [OF _ s(2), of L "''survey_points.csv''" "w5\<lparr>rng := ?g6\<rparr>"] by auto
  obtain w7 shp where w7: "shapefile_all L ?datasets (print ([CHR 0x0A] @ ''Shapefiles:'') w6) = Inr w7"
      "rng w7 = ?g6" "files w7 = files w6 @ shp" "list_all (\<lambda>nc. shapefile_name (fst nc)) shp"
    using shapefile_all_ok [OF ds, of L "print ([CHR 0x0A] @ ''Shapefiles:'') w6"] w6(4) by auto
  let ?r8 = "generate_geotiff L (print ([CHR 0x0A] @ ''GeoTIFF files:'') w7)"
  obtain tif where w8: "files (snd ?r8) = files w7 @ tif"
      "set (map fst tif) \<subseteq> {''elevation.tif'', ''satellite_rgb.tif''}" "rng (snd ?r8) = ?g6"
    using generate_geotiff_files [of L "print ([CHR 0x0A] @ ''GeoTIFF files:'') w7"] w7(2)
    by auto
  let ?w9 = "(if fst ?r8 then print ''  satellite_rgb.tif (3 bands)''
                            (print ''  elevation.tif (single band)'' (snd ?r8)) else snd ?r8)"
  have w9: "files ?w9 = files w7 @ tif" "rng ?w9 = ?g6" using w8 by simp_all
  have "''drillholes.geojson'' \<in> set (map fst (files ?w9))"
    by (simp only: w9 w7(3) w6(5) w5(5) w3(3)) simp
  then obtain z where z: "files (zip_drillholes ?w9) = files ?w9 @ [(''drillholes_shp.zip'', Zip z)]"
      "rng (zip_drillholes ?w9) = ?g6"
    using zip_drillholes_files [of ?w9] w9(2) by auto
  let ?w' = "print ([CHR 0x0A] @ ''Done! Drag files onto Spinifex to test.'') (zip_drillholes ?w9)"
  have m: "main L w = Inr ?w'"
    using d(1) ge(1) t(1) k(1) w3(1,2) w5(3,4) w6(3) w7(1)
    by (simp add: main_def Let_def case_prod_beta del: dump_all.simps shapefile_all.simps)
  have g: "generate_drillholes_geojson L 50 (rng w) = (feature_collection fd, ?g1)"
      "generate_tenements_geojson L 8 g2 = (feature_collection ft, ?g3)"
      "generate_tracks_geojson L 5 ?g3 = (feature_collection fk, ?g4)"
      "generate_assays_csv L 100 ?g4 = (?assays, ?g5)"
      "generate_survey_csv L 200 ?g5 = (?survey, ?g6)"
    using d(1) t(1) k(1) by (simp_all add: prod_eq_iff)
  have f: "files ?w' = files w
          @ [(''drillholes.geojson'', Text (json_dumps L (feature_collection fd) 2)),
             (''geology.geojson'', Text (json_dumps L (feature_collection fg) 2)),
             (''tenements.geojson'', Text (json_dumps L (feature_collection ft) 2)),
             (''tracks.geojson'', Text (json_dumps L (feature_collection fk) 2)),
             (''assays.csv'', Lines (csv_line (map csv_field assay_fields) # la)),
             (''survey_points.csv'', Lines (csv_line (map csv_field survey_fields) # ls))]
          @ shp @ tif @ [(''drillholes_shp.zip'', Zip z)]"
    by (simp only: print_simps z(1) w9 w7(3) w6(5) w5(5) w3(3)) simp
  have r: "rng ?w' = ?g6" using z(2) by simp
  have wab: "files w7 = files (print ([CHR 0x0A] @ ''Shapefiles:'') w6) @ shp"
    using w7(3) by simp
  have la: "length la = 100" using w5(2) a(1) by simp
  have ls: "length ls = 200" using w6(2) s(1) by simp
  show ?thesis
    apply (rule exI [of _ fd], rule exI [of _ ?g1], rule exI [of _ fg], rule exI [of _ g2])
    apply (rule exI [of _ ft], rule exI [of _ ?g3], rule exI [of _ fk], rule exI [of _ ?g4])
    apply (rule exI [of _ ?assays], rule exI [of _ ?g5], rule exI [of _ ?survey], rule exI [of _ ?g6])
    apply (rule exI [of _ la], rule exI [of _ ls], rule exI [of _ shp], rule exI [of _ tif])
    apply (rule exI [of _ z], rule exI [of _ ?w'])
    apply (rule exI [of _ "print ([CHR 0x0A] @ ''Shapefiles:'') w6"], rule exI [of _ w7])
    apply (intro conjI)
    apply (rule g ge d t k a s w5 w6 m r f w7 w8 la ls wab)+
    done
qed

section \<open>The run of main\<close>

lemma main_traceE:
  obtains fd g1 fg g2 ft g3 fk g4 assays g5 survey g6 la ls shp tif z w' where
    "generate_drillholes_geojson L 50 (rng w) = (feature_collection fd, g1)"
    "list_all is_feature fd"
    "generate_geology_geojson L 15 g1 = Inr (feature_collection fg, g2)"
    "list_all is_feature fg"
    "generate_tenements_geojson L 8 g2 = (feature_collection ft, g3)"
    "list_all is_feature ft"
    "generate_tracks_geojson L 5 g3 = (feature_collection fk, g4)"
    "list_all is_feature fk"
    "generate_assays_csv L 100 g4 = (assays, g5)"
    "generate_survey_csv L 200 g5 = (survey, g6)"
    "csv_rows L assay_fields assays = Inr la" "length la = 100"
    "csv_rows L survey_fields survey = Inr ls" "length ls = 200"
    "main L w = Inr w'"
    "files w' = files w
          @ [(''drillholes.geojson'', Text (json_dumps L (feature_collection fd) 2)),
             (''geology.geojson'', Text (json_dumps L (feature_collection fg) 2)),
             (''tenements.geojson'', Text (json_dumps L (feature_collection ft) 2)),
             (''tracks.geojson'', Text (json_dumps L (feature_collection fk) 2)),
             (''assays.csv'', Lines (csv_line (map csv_field assay_fields) # la)),
             (''survey_points.csv'', Lines (csv_line (map csv_field survey_fields) # ls))]
          @ shp @ tif @ [(''drillholes_shp.zip'', Zip z)]"
    "list_all (\<lambda>nc. shapefile_name (fst nc)) shp"
    "set (map fst tif) \<subseteq> {''elevation.tif'', ''satellite_rgb.tif''}"
  using main_trace [of L w]
  by (elim exE conjE) (rule that, assumption+)

text \<open>
  Claim C7. \<open>main\<close> is random-data generation followed by serialization in a fixed order: it
  first builds the four GeoJSON datasets, each generator starting from the random state the
  one before it left, then writes them to the four \<^verbatim>\<open>.geojson\<close> files, then generates and
  writes the two CSV files, then the shapefiles (built from the same four datasets), then
  the GeoTIFFs, and last the zip archive. The files are the serializations of the very
  values generated, and the random state at the end is the one the sixth generator left:
  nothing is generated a second time.
\<close>

theorem main_fixed_order:
  "\<exists>drillholes g1 geology g2 tenements g3 tracks g4 assays g5 survey g6 la ls shp tif z w' wa wb.
     generate_drillholes_geojson L 50 (rng w) = (drillholes, g1)
     \<and> generate_geology_geojson L 15 g1 = Inr (geology, g2)
     \<and> generate_tenements_geojson L 8 g2 = (tenements, g3)
     \<and> generate_tracks_geojson L 5 g3 = (tracks, g4)
     \<and> generate_assays_csv L 100 g4 = (assays, g5)
     \<and> generate_survey_csv L 200 g5 = (survey, g6)
     \<and> csv_rows L assay_fields assays = Inr la
     \<and> csv_rows L survey_fields survey = Inr ls
     \<and> shapefile_all L [(''drillholes'', drillholes), (''geology'', geology),
           (''tenements'', tenements), (''tracks'', tracks)] wa = Inr wb
     \<and> files wb = files wa @ shp
     \<and> list_all (\<lambda>nc. shapefile_name (fst nc)) shp
     \<and> set (map fst tif) \<subseteq> {''elevation.tif'', ''satellite_rgb.tif''}
     \<and> main L w = Inr w' \<and> rng w' = g6
     \<and> files w' = files w
          @ [(''drillholes.geojson'', Text (json_dumps L drillholes 2)),
             (''geology.geojson'', Text (json_dumps L geology 2)),
             (''tenements.geojson'', Text (json_dumps L tenements 2)),
             (''tracks.geojson'', Text (json_dumps L tracks 2)),
             (''assays.csv'', Lines (csv_line (map csv_field assay_fields) # la)),
             (''survey_points.csv'', Lines (csv_line (map csv_field survey_fields) # ls))]
          @ shp @ tif @ [(''drillholes_shp.zip'', Zip z)]"
  using main_trace [of L w]
  by (elim exE conjE) (intro exI conjI, assumption+)


text \<open>
  Claim C6. Each GeoJSON value written by \<open>main\<close> has the GeoJSON structure: it is an object
  with "type" equal to "FeatureCollection" and a "features" array in which every element
  has "type" equal to "Feature", a "geometry" object with a "type" and "coordinates", and a
  "properties" object; the file written is its JSON serialization (\<^verbatim>\<open>json.dump\<close> with an
  indent of 2), and the four values are the ones the generators returned.
\<close>

theorem main_writes_geojson:
  "\<exists>drillholes g1 geology g2 tenements g3 tracks g4 w'.
     generate_drillholes_geojson L 50 (rng w) = (drillholes, g1)
     \<and> generate_geology_geojson L 15 g1 = Inr (geology, g2)
     \<and> generate_tenements_geojson L 8 g2 = (tenements, g3)
     \<and> generate_tracks_geojson L 5 g3 = (tracks, g4)
     \<and> is_feature_collection drillholes \<and> is_feature_collection geology
     \<and> is_feature_collection tenements \<and> is_feature_collection tracks
     \<and> main L w = Inr w'
     \<and> take 4 (drop (length (files w)) (files w'))
         = [(''drillholes.geojson'', Text (json_dumps L drillholes 2)),
            (''geology.geojson'', Text (json_dumps L geology 2)),
            (''tenements.geojson'', Text (json_dumps L tenements 2)),
            (''tracks.geojson'', Text (json_dumps L tracks 2))]"
proof -
  obtain fd g1 fg g2 ft g3 fk g4 assays g5 survey g6 la ls shp tif z w' where
    gen: "generate_drillholes_geojson L 50 (rng w) = (feature_collection fd, g1)"
      "generate_geology_geojson L 15 g1 = Inr (feature_collection fg, g2)"
      "generate_tenements_geojson L 8 g2 = (feature_collection ft, g3)"
      "generate_tracks_geojson L 5 g3 = (feature_collection fk, g4)"
    and fs: "list_all is_feature fd" "list_all is_feature fg" "list_all is_feature ft"
      "list_all is_feature fk"
    and m: "main L w = Inr w'"
    and f: "files w' = files w
          @ [(''drillholes.geojson'', Text (json_dumps L (feature_collection fd) 2)),
             (''geology.geojson'', Text (json_dumps L (feature_collection fg) 2)),
             (''tenements.geojson'', Text (json_dumps L (feature_collection ft) 2)),
             (''tracks.geojson'', Text (json_dumps L (feature_collection fk) 2)),
             (''assays.csv'', Lines (csv_line (map csv_field assay_fields) # la)),
             (''survey_points.csv'', Lines (csv_line (map csv_field survey_fields) # ls))]
          @ shp @ tif @ [(''drillholes_shp.zip'', Zip z)]"
    by (rule main_traceE [of L w])
  have c: "is_feature_collection (feature_collection fd)" "is_feature_collection (feature_collection fg)"
      "is_feature_collection (feature_collection ft)" "is_feature_collection (feature_collection fk)"
    using fs by (simp_all add: is_feature_collection_iff)
  have t: "take 4 (drop (length (files w)) (files w'))
         = [(''drillholes.geojson'', Text (json_dumps L (feature_collection fd) 2)),
            (''geology.geojson'', Text (json_dumps L (feature_collection fg) 2)),
            (''tenements.geojson'', Text (json_dumps L (feature_collection ft) 2)),
            (''tracks.geojson'', Text (json_dumps L (feature_collection fk) 2))]"
    by (simp add: f)
  from gen c m t show ?thesis by blast
qed

text \<open>
  Claim C2. Shapefile and raster outputs are optional: if the module \<^verbatim>\<open>shapefile\<close> cannot be
  imported, \<open>generate_shapefile\<close> returns False without raising and without writing a file;
  if \<^verbatim>\<open>numpy\<close> or \<^verbatim>\<open>rasterio\<close> cannot be imported, \<open>generate_geotiff\<close> returns False without
  writing a file; and \<open>main\<close> returns, having written all four GeoJSON files and both CSV
  files, whichever modules there are.
\<close>

theorem optional_outputs:
  "(\<not> has_shapefile L \<longrightarrow>
      (\<exists>w'. generate_shapefile L data name w = Inr (False, w') \<and> files w' = files w))
   \<and> (\<not> (has_numpy L \<and> has_rasterio L) \<longrightarrow>
      fst (generate_geotiff L w) = False \<and> files (snd (generate_geotiff L w)) = files w)
   \<and> (\<exists>w'. main L w = Inr w'
        \<and> {''drillholes.geojson'', ''geology.geojson'', ''tenements.geojson'', ''tracks.geojson'',
            ''assays.csv'', ''survey_points.csv''}
           \<subseteq> set (map fst (drop (length (files w)) (files w'))))"
proof (intro conjI impI)
  assume "\<not> has_shapefile L"
  then show "\<exists>w'. generate_shapefile L data name w = Inr (False, w') \<and> files w' = files w"
    using generate_shapefile_no_module [of L data name w] by blast
next
  assume "\<not> (has_numpy L \<and> has_rasterio L)"
  then show "fst (generate_geotiff L w) = False" by (simp add: generate_geotiff_def)
next
  assume "\<not> (has_numpy L \<and> has_rasterio L)"
  then show "files (snd (generate_geotiff L w)) = files w" by (simp add: generate_geotiff_def)
next
  obtain fd g1 fg g2 ft g3 fk g4 assays g5 survey g6 la ls shp tif z w' where
    m: "main L w = Inr w'"
    and f: "files w' = files w
          @ [(''drillholes.geojson'', Text (json_dumps L (feature_collection fd) 2)),
             (''geology.geojson'', Text (json_dumps L (feature_collection fg) 2)),
             (''tenements.geojson'', Text (json_dumps L (feature_collection ft) 2)),
             (''tracks.geojson'', Text (json_dumps L (feature_collection fk) 2)),
             (''assays.csv'', Lines (csv_line (map csv_field assay_fields) # la)),
             (''survey_points.csv'', Lines (csv_line (map csv_field survey_fields) # ls))]
          @ shp @ tif @ [(''drillholes_shp.zip'', Zip z)]"
    by (rule main_traceE [of L w])
  have "{''drillholes.geojson'', ''geology.geojson'', ''tenements.geojson'', ''tracks.geojson'',
            ''assays.csv'', ''survey_points.csv''}
           \<subseteq> set (map fst (drop (length (files w)) (files w')))"
    by (simp add: f)
  with m show "\<exists>w'. main L w = Inr w'
        \<and> {''drillholes.geojson'', ''geology.geojson'', ''tenements.geojson'', ''tracks.geojson'',
            ''assays.csv'', ''survey_points.csv''}
           \<subseteq> set (map fst (drop (length (files w)) (files w')))"
    by blast
qed

theorem optional_outputs_witness:
  "\<not> has_shapefile lcg_lib \<and> \<not> (has_numpy lcg_lib \<and> has_rasterio lcg_lib)
   \<and> (\<exists>w'. generate_shapefile lcg_lib (feature_collection []) ''drillholes'' world0 = Inr (False, w')
          \<and> files w' = files world0)
   \<and> fst (generate_geotiff lcg_lib world0) = False
   \<and> files (snd (generate_geotiff lcg_lib world0)) = files world0
   \<and> (\<exists>w'. main lcg_lib world0 = Inr w'
        \<and> {''drillholes.geojson'', ''geology.geojson'', ''tenements.geojson'', ''tracks.geojson'',
            ''assays.csv'', ''survey_points.csv''}
           \<subseteq> set (map fst (drop (length (files world0)) (files w'))))"
  using optional_outputs [of lcg_lib "feature_collection []" "''drillholes''" world0]
  by (simp add: lcg_lib_def)


lemma not_shapefile_names:
  "\<not> shapefile_name ''assays.csv''" "\<not> shapefile_name ''survey_points.csv''"
  by (simp_all add: shapefile_name_def)

lemma read_file_written:
  assumes "fs = old @ six @ shp @ tif @ [(zn, zc)]"
    and "map_of (rev six) name = Some c"
    and "name \<notin> fst ` set shp" and "name \<notin> fst ` set tif" and "name \<noteq> zn"
  shows "read_file fs name = Some c"
proof -
  have "map_of (rev shp) name = None" "map_of (rev tif) name = None"
    using assms(3,4) by (simp_all add: map_of_eq_None_iff)
  then show ?thesis
    using assms(1,2,5) by (simp add: read_file_def map_add_def)
qed

text \<open>
  Claim C4. The CSV outputs are tabular: for every \<open>n \<ge> 1\<close>, \<open>generate_assays_csv n\<close> and
  \<open>generate_survey_csv n\<close> each return exactly \<open>n\<close> rows that all have the same field names,
  and \<open>main\<close> leaves each file as one header line naming those fields followed by one line
  for each of the 100 (respectively 200) rows generated.
\<close>

theorem csv_outputs_tabular:
  "(1 \<le> n \<longrightarrow>
      int (length (fst (generate_assays_csv L n g))) = n
      \<and> (\<forall>row \<in> set (fst (generate_assays_csv L n g)). map fst row = assay_fields)
      \<and> int (length (fst (generate_survey_csv L n g))) = n
      \<and> (\<forall>row \<in> set (fst (generate_survey_csv L n g)). map fst row = survey_fields))
   \<and> (\<exists>g4 assays g5 survey g6 la ls w'.
         generate_assays_csv L 100 g4 = (assays, g5)
         \<and> generate_survey_csv L 200 g5 = (survey, g6)
         \<and> csv_rows L assay_fields assays = Inr la \<and> length la = 100
         \<and> csv_rows L survey_fields survey = Inr ls \<and> length ls = 200
         \<and> main L w = Inr w'
         \<and> read_file (files w') ''assays.csv''
             = Some (Lines (csv_line (map csv_field assay_fields) # la))
         \<and> read_file (files w') ''survey_points.csv''
             = Some (Lines (csv_line (map csv_field survey_fields) # ls)))"
proof (intro conjI impI)
  assume n: "1 \<le> n"
  show "int (length (fst (generate_assays_csv L n g))) = n"
    using n assays_rows [of L n g] by simp
  show "\<forall>row \<in> set (fst (generate_assays_csv L n g)). map fst row = assay_fields"
    using assays_rows [of L n g] by (simp add: list_all_iff)
  show "int (length (fst (generate_survey_csv L n g))) = n"
    using n survey_rows [of L n g] by simp
  show "\<forall>row \<in> set (fst (generate_survey_csv L n g)). map fst row = survey_fields"
    using survey_rows [of L n g] by (simp add: list_all_iff)
next
  obtain fd g1 fg g2 ft g3 fk g4 assays g5 survey g6 la ls shp tif z w' where
    gen: "generate_assays_csv L 100 g4 = (assays, g5)" "generate_survey_csv L 200 g5 = (survey, g6)"
    and rows: "csv_rows L assay_fields assays = Inr la" "length la = 100"
      "csv_rows L survey_fields survey = Inr ls" "length ls = 200"
    and m: "main L w = Inr w'"
    and f: "files w' = files w
          @ [(''drillholes.geojson'', Text (json_dumps L (feature_collection fd) 2)),
             (''geology.geojson'', Text (json_dumps L (feature_collection fg) 2)),
             (''tenements.geojson'', Text (json_dumps L (feature_collection ft) 2)),
             (''tracks.geojson'', Text (json_dumps L (feature_collection fk) 2)),
             (''assays.csv'', Lines (csv_line (map csv_field assay_fields) # la)),
             (''survey_points.csv'', Lines (csv_line (map csv_field survey_fields) # ls))]
          @ shp @ tif @ [(''drillholes_shp.zip'', Zip z)]"
    and shp: "list_all (\<lambda>nc. shapefile_name (fst nc)) shp"
    and tif: "set (map fst tif) \<subseteq> {''elevation.tif'', ''satellite_rgb.tif''}"
    by (rule main_traceE [of L w])
  have s1: "''assays.csv'' \<notin> fst ` set shp" "''survey_points.csv'' \<notin> fst ` set shp"
    using shp not_shapefile_names by (auto simp: list_all_iff)
  have t1: "''assays.csv'' \<notin> fst ` set tif" "''survey_points.csv'' \<notin> fst ` set tif"
    using tif by auto
  have ra: "read_file (files w') ''assays.csv''
             = Some (Lines (csv_line (map csv_field assay_fields) # la))"
    by (rule read_file_written [OF f _ s1(1) t1(1)]) simp_all
  have rs: "read_file (files w') ''survey_points.csv''
             = Some (Lines (csv_line (map csv_field survey_fields) # ls))"
    by (rule read_file_written [OF f _ s1(2) t1(2)]) simp_all
  from gen rows m ra rs
  show "\<exists>g4 assays g5 survey g6 la ls w'.
         generate_assays_csv L 100 g4 = (assays, g5)
         \<and> generate_survey_csv L 200 g5 = (survey, g6)
         \<and> csv_rows L assay_fields assays = Inr la \<and> length la = 100
         \<and> csv_rows L survey_fields survey = Inr ls \<and> length ls = 200
         \<and> main L w = Inr w'
         \<and> read_file (files w') ''assays.csv''
             = Some (Lines (csv_line (map csv_field assay_fields) # la))
         \<and> read_file (files w') ''survey_points.csv''
             = Some (Lines (csv_line (map csv_field survey_fields) # ls))"
    by blast
qed

theorem csv_outputs_tabular_witness:
  "(1::int) \<le> 3
   \<and> int (length (fst (generate_assays_csv lcg_lib 3 42))) = 3
   \<and> list_all (\<lambda>row. map fst row = assay_fields) (fst (generate_assays_csv lcg_lib 3 42))
   \<and> int (length (fst (generate_survey_csv lcg_lib 3 42))) = 3
   \<and> list_all (\<lambda>row. map fst row = survey_fields) (fst (generate_survey_csv lcg_lib 3 42))
   \<and> (\<exists>la ls w'. length la = 100 \<and> length ls = 200
         \<and> main lcg_lib world0 = Inr w'
         \<and> read_file (files w') ''assays.csv''
             = Some (Lines (csv_line (map csv_field assay_fields) # la))
         \<and> read_file (files w') ''survey_points.csv''
             = Some (Lines (csv_line (map csv_field survey_fields) # ls)))"
  using csv_outputs_tabular [of 3 lcg_lib 42 world0]
  unfolding list_all_iff by (simp, blast)

theorem main_fixed_order_witness:
  "\<exists>w' g6 rest. main lcg_lib world0 = Inr w' \<and> rng w' = g6
     \<and> map fst (files w') = [''drillholes.geojson'', ''geology.geojson'', ''tenements.geojson'',
          ''tracks.geojson'', ''assays.csv'', ''survey_points.csv''] @ rest @ [''drillholes_shp.zip'']"
proof -
  obtain drillholes g1 geology g2 tenements g3 tracks g4 assays g5 survey g6 la ls shp tif z w' wa wb
    where m: "main lcg_lib world0 = Inr w'" "rng w' = (g6 :: nat)"
      and f: "files w' = files world0
          @ [(''drillholes.geojson'', Text (json_dumps lcg_lib drillholes 2)),
             (''geology.geojson'', Text (json_dumps lcg_lib geology 2)),
             (''tenements.geojson'', Text (json_dumps lcg_lib tenements 2)),
             (''tracks.geojson'', Text (json_dumps lcg_lib tracks 2)),
             (''assays.csv'', Lines (csv_line (map csv_field assay_fields) # la)),
             (''survey_points.csv'', Lines (csv_line (map csv_field survey_fields) # ls))]
          @ shp @ tif @ [(''drillholes_shp.zip'', Zip z)]"
    using main_fixed_order [of lcg_lib world0] by (elim exE conjE) 
  have "map fst (files w') = [''drillholes.geojson'', ''geology.geojson'', ''tenements.geojson'',
          ''tracks.geojson'', ''assays.csv'', ''survey_points.csv''] @ (map fst shp @ map fst tif)
          @ [''drillholes_shp.zip'']"
    by (simp add: f world0_def)
  with m show ?thesis by blast
qed

theorem main_writes_geojson_witness:
  "\<exists>drillholes geology tenements tracks w'.
     is_feature_collection drillholes \<and> is_feature_collection geology
     \<and> is_feature_collection tenements \<and> is_feature_collection tracks
     \<and> main lcg_lib world0 = Inr w'
     \<and> take 4 (files w')
         = [(''drillholes.geojson'', Text (json_text lcg_repr drillholes)),
            (''geology.geojson'', Text (json_text lcg_repr geology)),
            (''tenements.geojson'', Text (json_text lcg_repr tenements)),
            (''tracks.geojson'', Text (json_text lcg_repr tracks))]"
  using main_writes_geojson [of lcg_lib world0]
  by (simp add: world0_def lcg_lib_def) blast

end
